theory Spec2Isabelle
  imports Complex_Main "HOL-Library.Log_Nat"
begin

section \<open>Data model (types.ts)\<close>

text \<open>
  A JavaScript \<open>number\<close> is an IEEE 754 double. The model takes its value as a real;
  \<open>NaN\<close> and the infinities have no counterpart, so a statement about a quotient
  assumes a divisor other than 0. Arithmetic is exact where its result only places or
  sizes what is shown or drawn. It is rounded as the machine rounds it (section
  \<open>Double rounding\<close>) where the result goes through a step that turns rounding into a
  different outcome: the page counts and canvas sizes (\<open>Math.ceil\<close>), the tile extents
  (the test \<open>sw > 0\<close>) and the unit toggle (\<open>toFixed\<close>).
  Record fields keep the source's names; those that would hide a HOL constant or a
  variable name (\<open>id\<close>, \<open>x\<close>, \<open>width\<close>, ...) carry the record's name as a prefix.
\<close>

datatype Unit = MM | INCH

datatype PaperOrientation = PORTRAIT | LANDSCAPE

datatype Category = ISO | ANSI | Photo | Custom

record PaperSize =
  paper_id :: string
  paper_name :: string
  paper_width :: real
  paper_height :: real
  category :: Category

datatype SlicingMode = GRID | SIZE

datatype LayerType = ImageLayer | TextLayer

record Style =
  color :: "string option"
  fontSize :: "real option"
  fontFamily :: "string option"
  fontWeight :: "string option"
  backgroundColor :: "string option"

record Layer =
  layer_id :: string
  layer_type :: LayerType
  content :: string
  layer_x :: real
  layer_y :: real
  layer_width :: real
  layer_height :: real
  rotation :: real
  opacity :: real
  style :: "Style option"

datatype CutLineStyle = CutSolid | CutDashed | CutNone

record PosterConfig =
  mode :: SlicingMode
  unit :: Unit
  targetWidth :: real
  targetHeight :: real
  gridRows :: real
  gridCols :: real
  paperId :: string
  orientation :: PaperOrientation
  margin :: real
  overlap :: real
  showCutLines :: bool
  cutLineStyle :: CutLineStyle
  showPageNumbers :: bool

section \<open>Paper catalogue (constants.ts)\<close>

definition mkPaper :: "string \<Rightarrow> string \<Rightarrow> real \<Rightarrow> real \<Rightarrow> Category \<Rightarrow> PaperSize" where
  "mkPaper i n w h k =
     \<lparr>paper_id = i, paper_name = n, paper_width = w, paper_height = h, category = k\<rparr>"

text \<open>A number followed by the inch sign (character 0x22), as in the photo sizes' names.\<close>

definition inches :: "string \<Rightarrow> string" where
  "inches n = n @ [CHR 0x22]"

definition PAPER_SIZES :: "PaperSize list" where
  "PAPER_SIZES =
    [mkPaper ''a3'' ''A3'' 297 420 ISO,
     mkPaper ''a3plus'' ''A3+ (Super B)'' 329 483 ISO,
     mkPaper ''a4'' ''A4'' 210 297 ISO,
     mkPaper ''a5'' ''A5'' 148 210 ISO,
     mkPaper ''a6'' ''A6'' 105 148 ISO,
     mkPaper ''letter'' ''Letter'' 215.9 279.4 ANSI,
     mkPaper ''legal'' ''Legal'' 215.9 355.6 ANSI,
     mkPaper ''folio'' ''Folio (Long Bond)'' 215.9 330.2 ANSI,
     mkPaper ''tabloid'' ''Tabloid'' 279.4 431.8 ANSI,
     mkPaper ''4x6'' (inches ''4'' @ '' x '' @ inches ''6'') 101.6 152.4 Photo,
     mkPaper ''5x7'' (inches ''5'' @ '' x '' @ inches ''7'') 127 177.8 Photo,
     mkPaper ''8x10'' (inches ''8'' @ '' x '' @ inches ''10'') 203.2 254 Photo]"

section \<open>Paper and printable area (generateTiledPDF, lines 37-59 and 76)\<close>

text \<open>
  The paper in the configuration's unit, turned by the orientation, and the printable
  area inside the margins, in exact arithmetic. The exporter tests these for the margin
  error, sizes its pages by them and places the page label by them.
\<close>

definition isInch :: "PosterConfig \<Rightarrow> bool" where
  "isInch config = (unit config = INCH)"

definition paperWidth :: "PosterConfig \<Rightarrow> PaperSize \<Rightarrow> real" where
  "paperWidth config paperSize =
     (if isInch config then paper_width paperSize / 25.4 else paper_width paperSize)"

definition paperHeight :: "PosterConfig \<Rightarrow> PaperSize \<Rightarrow> real" where
  "paperHeight config paperSize =
     (if isInch config then paper_height paperSize / 25.4 else paper_height paperSize)"

definition isPortrait :: "PosterConfig \<Rightarrow> bool" where
  "isPortrait config = (orientation config = PORTRAIT)"

definition pWidth :: "PosterConfig \<Rightarrow> PaperSize \<Rightarrow> real" where
  "pWidth config paperSize =
     (if isPortrait config then paperWidth config paperSize else paperHeight config paperSize)"

definition pHeight :: "PosterConfig \<Rightarrow> PaperSize \<Rightarrow> real" where
  "pHeight config paperSize =
     (if isPortrait config then paperHeight config paperSize else paperWidth config paperSize)"

definition printW :: "PosterConfig \<Rightarrow> PaperSize \<Rightarrow> real" where
  "printW config paperSize = pWidth config paperSize - (margin config * 2)"

definition printH :: "PosterConfig \<Rightarrow> PaperSize \<Rightarrow> real" where
  "printH config paperSize = pHeight config paperSize - (margin config * 2)"

definition scale :: "PosterConfig \<Rightarrow> real" where
  "scale config = (if isInch config then 120 else 5)"

section \<open>Double rounding\<close>

text \<open>
  The exporter's numbers are IEEE 754 doubles: every arithmetic result is rounded to the
  nearest number with a 53-bit significand, to the even one at a tie. \<open>fl64\<close> is that
  rounding on the reals, for results of magnitude below \<open>2^1024\<close> (no overflow);
  below \<open>2^(-1022)\<close> the spacing stays that of the subnormal numbers.
\<close>

definition rne :: "real \<Rightarrow> int" where
  "rne x =
     (let f = \<lfloor>x\<rfloor>; d = x - of_int f
      in if d < 1 / 2 then f
         else if d > 1 / 2 then f + 1
         else if even f then f else f + 1)"

text \<open>The binary exponent of a positive real: the \<open>e\<close> with \<open>2^e \<le> x < 2^(e+1)\<close>.\<close>

definition ilog2 :: "real \<Rightarrow> int" where
  "ilog2 x = (if x \<ge> 1 then bitlen \<lfloor>x\<rfloor> - 1 else - bitlen (\<lceil>1 / x\<rceil> - 1))"

definition fl64 :: "real \<Rightarrow> real" where
  "fl64 x =
     (if x = 0 then 0
      else let e = max (ilog2 \<bar>x\<bar>) (- 1022);
               u = 2 powi (e - 52)
           in sgn x * (of_int (rne (\<bar>x\<bar> / u)) * u))"

section \<open>Page counts, canvas size and tile extents (generateTiledPDF, lines 41-80, 145-150)\<close>

text \<open>
  The exporter's derivation of the poster size, the page counts, the canvas size and the
  region of each tile, each operation rounded. A decimal literal of the source (a paper
  dimension, 25.4) denotes the nearest double; the fields of the configuration are doubles
  as they stand.
\<close>

definition paperWidth_f64 :: "PosterConfig \<Rightarrow> PaperSize \<Rightarrow> real" where
  "paperWidth_f64 cfg paperSize =
     (if isInch cfg then fl64 (fl64 (paper_width paperSize) / fl64 25.4)
      else fl64 (paper_width paperSize))"

definition paperHeight_f64 :: "PosterConfig \<Rightarrow> PaperSize \<Rightarrow> real" where
  "paperHeight_f64 cfg paperSize =
     (if isInch cfg then fl64 (fl64 (paper_height paperSize) / fl64 25.4)
      else fl64 (paper_height paperSize))"

definition pWidth_f64 :: "PosterConfig \<Rightarrow> PaperSize \<Rightarrow> real" where
  "pWidth_f64 cfg paperSize =
     (if isPortrait cfg then paperWidth_f64 cfg paperSize
      else paperHeight_f64 cfg paperSize)"

definition pHeight_f64 :: "PosterConfig \<Rightarrow> PaperSize \<Rightarrow> real" where
  "pHeight_f64 cfg paperSize =
     (if isPortrait cfg then paperHeight_f64 cfg paperSize
      else paperWidth_f64 cfg paperSize)"

definition printW_f64 :: "PosterConfig \<Rightarrow> PaperSize \<Rightarrow> real" where
  "printW_f64 cfg paperSize =
     fl64 (pWidth_f64 cfg paperSize - fl64 (margin cfg * 2))"

definition printH_f64 :: "PosterConfig \<Rightarrow> PaperSize \<Rightarrow> real" where
  "printH_f64 cfg paperSize =
     fl64 (pHeight_f64 cfg paperSize - fl64 (margin cfg * 2))"

definition posterWidth_f64 :: "PosterConfig \<Rightarrow> PaperSize \<Rightarrow> real" where
  "posterWidth_f64 cfg paperSize =
     (if mode cfg = GRID then fl64 (gridCols cfg * printW_f64 cfg paperSize)
      else targetWidth cfg)"

definition posterHeight_f64 :: "PosterConfig \<Rightarrow> PaperSize \<Rightarrow> real" where
  "posterHeight_f64 cfg paperSize =
     (if mode cfg = GRID then fl64 (gridRows cfg * printH_f64 cfg paperSize)
      else targetHeight cfg)"

definition cols_f64 :: "PosterConfig \<Rightarrow> PaperSize \<Rightarrow> int" where
  "cols_f64 cfg paperSize =
     \<lceil>fl64 (posterWidth_f64 cfg paperSize / printW_f64 cfg paperSize)\<rceil>"

definition rows_f64 :: "PosterConfig \<Rightarrow> PaperSize \<Rightarrow> int" where
  "rows_f64 cfg paperSize =
     \<lceil>fl64 (posterHeight_f64 cfg paperSize / printH_f64 cfg paperSize)\<rceil>"

definition srcW_f64 :: "PosterConfig \<Rightarrow> PaperSize \<Rightarrow> nat \<Rightarrow> real" where
  "srcW_f64 cfg paperSize c =
     min (printW_f64 cfg paperSize)
         (fl64 (posterWidth_f64 cfg paperSize - fl64 (of_nat c * printW_f64 cfg paperSize)))"

definition srcX_f64 :: "PosterConfig \<Rightarrow> PaperSize \<Rightarrow> nat \<Rightarrow> real" where
  "srcX_f64 cfg paperSize c = fl64 (of_nat c * printW_f64 cfg paperSize)"

definition srcY_f64 :: "PosterConfig \<Rightarrow> PaperSize \<Rightarrow> nat \<Rightarrow> real" where
  "srcY_f64 cfg paperSize r = fl64 (of_nat r * printH_f64 cfg paperSize)"

definition srcH_f64 :: "PosterConfig \<Rightarrow> PaperSize \<Rightarrow> nat \<Rightarrow> real" where
  "srcH_f64 cfg paperSize r =
     min (printH_f64 cfg paperSize)
         (fl64 (posterHeight_f64 cfg paperSize - fl64 (of_nat r * printH_f64 cfg paperSize)))"

definition canvasWidth :: "PosterConfig \<Rightarrow> PaperSize \<Rightarrow> int" where
  "canvasWidth cfg paperSize = \<lceil>fl64 (posterWidth_f64 cfg paperSize * scale cfg)\<rceil>"

definition canvasHeight :: "PosterConfig \<Rightarrow> PaperSize \<Rightarrow> int" where
  "canvasHeight cfg paperSize = \<lceil>fl64 (posterHeight_f64 cfg paperSize * scale cfg)\<rceil>"

section \<open>Effects of an export\<close>

text \<open>
  The exporter acts on the DOM (canvases and their 2D contexts) and on the jsPDF document.
  An export is modelled by the list of calls it makes, in order, together with the error it
  throws, if any. Whether a canvas hands out a 2D context is the environment's choice.
  Waiting for an image is a call as well (\<open>LoadImage\<close>); the browser is taken to settle
  it, by \<open>onload\<close> or \<open>onerror\<close>, and the export goes on either way. A canvas is
  taken to report the width and height it was given.
\<close>

datatype effect =
    CreateCanvas int int
  | CtxFillStyle string
  | CtxFillRect real real real real
  | CtxSave
  | CtxTranslate real real
  | CtxRotate real
  | CtxGlobalAlpha real
  | LoadImage string
  | CtxDrawImage string real real real real
  | CtxFont string real string
  | CtxTextBaseline string
  | CtxFillText string real real
  | CtxRestore
  | NewDoc PaperOrientation Unit real real
  | DeletePage nat
  | AddPage real real PaperOrientation
  | TileCanvas real real
  | TileDrawImage real real real real real real real real
  | TileToDataURL string real
  | AddImage string real real real real
  | SetLineWidth real
  | SetDrawColor nat nat nat
  | SetLineDashPattern "real list" real
  | Rect real real real real
  | Line real real real real
  | SetFontSize real
  | SetTextColor nat
  | DocText string real real
  | DocSave string

datatype ExportError = MarginsTooLarge | NoCanvasContext

record Env =
  ctxAvailable :: bool
  tileCtxAvailable :: bool

section \<open>Compositor (generateTiledPDF, lines 89-127)\<close>

text \<open>\<open>content.split('\n')\<close>: the pieces between line feeds, always at least one.\<close>

primrec split_lines :: "string \<Rightarrow> string list" where
  "split_lines [] = [[]]"
| "split_lines (ch # cs) =
     (if ch = CHR 0x0A then [] # split_lines cs
      else (case split_lines cs of
              [] \<Rightarrow> [[ch]]
            | l # ls \<Rightarrow> (ch # l) # ls))"

text \<open>
  \<open>layer.style?.fontSize || 1\<close>: the multiplier is 1 when the style or its font size is
  absent, and also when the font size is 0, which is falsy.
\<close>

definition fontSizeMultiplier :: "Layer \<Rightarrow> real" where
  "fontSizeMultiplier layer =
     (case style layer of
        None \<Rightarrow> 1
      | Some s \<Rightarrow> (case fontSize s of
                     None \<Rightarrow> 1
                   | Some f \<Rightarrow> (if f = 0 then 1 else f)))"

text \<open>\<open>layer.style?.field || dflt\<close> on a string: the empty string is falsy too.\<close>

definition styleString :: "(Style \<Rightarrow> string option) \<Rightarrow> string \<Rightarrow> Layer \<Rightarrow> string" where
  "styleString field dflt layer =
     (case style layer of
        None \<Rightarrow> dflt
      | Some s \<Rightarrow> (case field s of
                     None \<Rightarrow> dflt
                   | Some v \<Rightarrow> (if v = [] then dflt else v)))"

definition textFontSize :: "int \<Rightarrow> Layer \<Rightarrow> real" where
  "textFontSize ch layer = (of_int ch * 0.05) * fontSizeMultiplier layer"

definition drawText :: "int \<Rightarrow> int \<Rightarrow> Layer \<Rightarrow> effect list" where
  "drawText cw ch layer =
     (let lx = layer_x layer * of_int cw;
          ly = layer_y layer * of_int ch;
          fs = textFontSize ch layer
      in [CtxFont (styleString fontWeight ''normal'' layer) fs
                  (styleString fontFamily ''sans-serif'' layer),
          CtxFillStyle (styleString color ''#000000'' layer),
          CtxTextBaseline ''top'']
         @ map (\<lambda>(i, line). CtxFillText line lx (ly + (of_nat i * fs * 1.2)))
               (enumerate 0 (split_lines (content layer))))"

definition drawLayer :: "int \<Rightarrow> int \<Rightarrow> Layer \<Rightarrow> effect list" where
  "drawLayer cw ch layer =
     (let lx = layer_x layer * of_int cw;
          ly = layer_y layer * of_int ch;
          lw = layer_width layer * of_int cw;
          lh = layer_height layer * of_int ch;
          cx = lx + lw / 2;
          cy = ly + lh / 2
      in [CtxSave, CtxTranslate cx cy, CtxRotate ((rotation layer * pi) / 180),
          CtxTranslate (- cx) (- cy), CtxGlobalAlpha (opacity layer)]
         @ (case layer_type layer of
              ImageLayer \<Rightarrow> [LoadImage (content layer), CtxDrawImage (content layer) lx ly lw lh]
            | TextLayer \<Rightarrow> drawText cw ch layer)
         @ [CtxRestore])"

section \<open>Tiler (generateTiledPDF, lines 129-218)\<close>

text \<open>
  The coordinates of the cut lines, the marks and the page label are sums and differences
  of the margin, the tile's extent and fixed lengths; they are drawn, not tested, and are
  taken exactly.
\<close>

text \<open>
  The body of the tile loop up to \<open>addImage\<close>. The region of the tile is scaled to canvas
  pixels in doubles, and the tile is cut and placed when both pixel extents are positive
  and the tile canvas grants a context.
\<close>

definition tileOps :: "Env \<Rightarrow> PosterConfig \<Rightarrow> PaperSize \<Rightarrow> nat \<Rightarrow> nat \<Rightarrow> effect list" where
  "tileOps env config paperSize r c =
     (let destX = margin config;
          destY = margin config;
          sx = fl64 (srcX_f64 config paperSize c * scale config);
          sy = fl64 (srcY_f64 config paperSize r * scale config);
          sw = fl64 (srcW_f64 config paperSize c * scale config);
          sh = fl64 (srcH_f64 config paperSize r * scale config)
      in if sw > 0 \<and> sh > 0
         then TileCanvas sw sh #
              (if tileCtxAvailable env
               then [TileDrawImage sx sy sw sh 0 0 sw sh,
                     TileToDataURL ''image/jpeg'' 0.95,
                     AddImage ''JPEG'' destX destY
                       (srcW_f64 config paperSize c) (srcH_f64 config paperSize r)]
               else [])
         else [])"

definition markLen :: "PosterConfig \<Rightarrow> real" where
  "markLen config = (if isInch config then 0.2 else 5)"

definition markOffset :: "PosterConfig \<Rightarrow> real" where
  "markOffset config = (if isInch config then 0.08 else 2)"

definition scissorMarks :: "PosterConfig \<Rightarrow> real \<Rightarrow> real \<Rightarrow> real \<Rightarrow> real \<Rightarrow> effect list" where
  "scissorMarks config destX destY w h =
     [Line (destX - markOffset config) destY (destX + markLen config) destY,
      Line destX (destY - markOffset config) destX (destY + markLen config),
      Line (destX + w - markLen config) (destY + h) (destX + w + markOffset config) (destY + h),
      Line (destX + w) (destY + h - markLen config) (destX + w) (destY + h + markOffset config)]"

definition cutLineOps :: "PosterConfig \<Rightarrow> PaperSize \<Rightarrow> nat \<Rightarrow> nat \<Rightarrow> effect list" where
  "cutLineOps config paperSize r c =
     (let destX = margin config;
          destY = margin config;
          w = srcW_f64 config paperSize c;
          h = srcH_f64 config paperSize r
      in if showCutLines config \<and> cutLineStyle config \<noteq> CutNone
         then [SetLineWidth (if isInch config then 0.01 else 0.3),
               SetDrawColor 150 150 150,
               (if cutLineStyle config = CutDashed
                then SetLineDashPattern
                       [if isInch config then 0.1 else 2, if isInch config then 0.1 else 2] 0
                else SetLineDashPattern [] 0),
               Rect destX destY w h,
               SetLineDashPattern [] 0,
               SetDrawColor 0 0 0]
              @ scissorMarks config destX destY w h
         else [])"

text \<open>The decimal digits of a natural number, as a template literal prints it.\<close>

definition digitChar :: "nat \<Rightarrow> char" where
  "digitChar d = char_of (d + 48)"

fun decimal :: "nat \<Rightarrow> string" where
  "decimal n =
     (if 10 \<le> n then decimal (n div 10) @ [digitChar (n mod 10)] else [digitChar n])"

definition pageLabel :: "nat \<Rightarrow> nat \<Rightarrow> string" where
  "pageLabel r c =
     ''Page '' @ decimal (r + 1) @ ''-'' @ decimal (c + 1)
     @ '' (Row '' @ decimal (r + 1) @ '', Col '' @ decimal (c + 1) @ '')''"

definition pageNumberOps :: "PosterConfig \<Rightarrow> PaperSize \<Rightarrow> nat \<Rightarrow> nat \<Rightarrow> effect list" where
  "pageNumberOps config paperSize r c =
     (if showPageNumbers config
      then [SetFontSize 10, SetTextColor 150,
            DocText (pageLabel r c)
              (if isInch config then 0.2 else 5)
              (pHeight config paperSize - (if isInch config then 0.2 else 5))]
      else [])"

definition pageOrientation :: "PosterConfig \<Rightarrow> PaperOrientation" where
  "pageOrientation config = (if isPortrait config then PORTRAIT else LANDSCAPE)"

definition pageOps :: "Env \<Rightarrow> PosterConfig \<Rightarrow> PaperSize \<Rightarrow> nat \<Rightarrow> nat \<Rightarrow> effect list" where
  "pageOps env config paperSize r c =
     AddPage (pWidth config paperSize) (pHeight config paperSize) (pageOrientation config)
     # tileOps env config paperSize r c
     @ cutLineOps config paperSize r c
     @ pageNumberOps config paperSize r c"

text \<open>The two nested \<open>for\<close> loops: rows outside, columns inside, both counting up from 0.\<close>

definition allPages :: "Env \<Rightarrow> PosterConfig \<Rightarrow> PaperSize \<Rightarrow> effect list" where
  "allPages env config paperSize =
     concat (map (\<lambda>r. concat (map (\<lambda>c. pageOps env config paperSize r c)
                                  [0 ..< nat (cols_f64 config paperSize)]))
                 [0 ..< nat (rows_f64 config paperSize)])"

definition generateTiledPDF ::
  "Env \<Rightarrow> PosterConfig \<Rightarrow> Layer list \<Rightarrow> PaperSize \<Rightarrow> effect list \<times> ExportError option" where
  "generateTiledPDF env config layers paperSize =
     (if printW config paperSize \<le> 0 \<or> printH config paperSize \<le> 0
      then ([], Some MarginsTooLarge)
      else let cw = canvasWidth config paperSize;
               ch = canvasHeight config paperSize
           in if \<not> ctxAvailable env
              then ([CreateCanvas cw ch], Some NoCanvasContext)
              else ([CreateCanvas cw ch, CtxFillStyle ''#ffffff'',
                     CtxFillRect 0 0 (of_int cw) (of_int ch)]
                    @ concat (map (drawLayer cw ch) layers)
                    @ [NewDoc (pageOrientation config) (unit config)
                         (pWidth config paperSize) (pHeight config paperSize),
                       DeletePage 1]
                    @ allPages env config paperSize
                    @ [DocSave ''docuslice-poster.pdf''],
                    None))"

section \<open>Application state and the unit toggle (App component)\<close>

datatype InteractionMode = ModeNone | Moving | Resizing

datatype Handle = NW | NE | SW | SE

record Interaction =
  imode :: InteractionMode
  activeHandle :: "Handle option"
  startMouse :: "real \<times> real"
  startLayer :: "Layer option"

text \<open>
  The state of the editing session: the \<open>useState\<close> cells of \<open>App\<close> that the operations
  below read or write, and the interaction state that \<open>CanvasWorkspace\<close> keeps.
\<close>

record AppState =
  layers :: "Layer list"
  selectedLayerId :: "string option"
  zoom :: real
  config :: PosterConfig
  interaction :: Interaction

definition DEFAULT_PAPER_ID :: string where
  "DEFAULT_PAPER_ID = ''letter''"

definition DEFAULT_PAPER :: PaperSize where
  "DEFAULT_PAPER =
     (case find (\<lambda>p. paper_id p = DEFAULT_PAPER_ID) PAPER_SIZES of
        Some p \<Rightarrow> p
      | None \<Rightarrow> hd PAPER_SIZES)"

definition selectedPaper :: "PosterConfig \<Rightarrow> PaperSize" where
  "selectedPaper cfg =
     (case find (\<lambda>p. paper_id p = paperId cfg) PAPER_SIZES of
        Some p \<Rightarrow> p
      | None \<Rightarrow> DEFAULT_PAPER)"

text \<open>
  \<open>v.toFixed(2)\<close> on the value of a double: the sign and then the magnitude to the
  nearest multiple of 1/100, the larger one at a tie; from \<open>10^21\<close> on it prints the
  number itself.
\<close>

definition toFixed2 :: "real \<Rightarrow> real" where
  "toFixed2 v =
     (if \<bar>v\<bar> \<ge> 10 ^ 21 then v
      else if v < 0 then - (of_int \<lfloor>(- v) * 100 + 1 / 2\<rfloor> / 100)
      else of_int \<lfloor>v * 100 + 1 / 2\<rfloor> / 100)"

text \<open>
  \<open>parseFloat((v * factor).toFixed(2))\<close>: the product is a double, its two-decimal
  print is read back as the nearest double.
\<close>

definition convertField :: "real \<Rightarrow> real \<Rightarrow> real" where
  "convertField v factor = fl64 (toFixed2 (fl64 (v * factor)))"

text \<open>The two factors of \<open>toggleUnit\<close>, \<open>1/25.4\<close> and \<open>25.4\<close>, as doubles.\<close>

definition toInch :: real where
  "toInch = fl64 (1 / fl64 25.4)"

definition toMM :: real where
  "toMM = fl64 25.4"

definition toggleUnit :: "AppState \<Rightarrow> AppState" where
  "toggleUnit st =
     (let newUnit = (if unit (config st) = MM then INCH else MM);
          factor = (if newUnit = INCH then toInch else toMM);
          prev = config st
      in st\<lparr>config := prev
           \<lparr>unit := newUnit,
            targetWidth := convertField (targetWidth prev) factor,
            targetHeight := convertField (targetHeight prev) factor,
            margin := convertField (margin prev) factor,
            overlap := convertField (overlap prev) factor\<rparr>\<rparr>)"

definition updateLayer :: "string \<Rightarrow> (Layer \<Rightarrow> Layer) \<Rightarrow> AppState \<Rightarrow> AppState" where
  "updateLayer i updates st =
     st\<lparr>layers := map (\<lambda>l. if layer_id l = i then updates l else l) (layers st)\<rparr>"

text \<open>
  \<open>handleAddLayer\<close>; the fresh identifier that \<open>crypto.randomUUID()\<close> returns is a
  parameter. The active tab of the side panel is not part of the model.
\<close>

definition handleAddLayer :: "string \<Rightarrow> LayerType \<Rightarrow> string \<Rightarrow> AppState \<Rightarrow> AppState" where
  "handleAddLayer uuid ty cont st =
     (let newLayer =
            \<lparr>layer_id = uuid, layer_type = ty, content = cont,
             layer_x = 0.25, layer_y = 0.25,
             layer_width = (if ty = ImageLayer then 0.5 else 0.5),
             layer_height = (if ty = ImageLayer then 0.5 else 0.2),
             rotation = 0, opacity = 1,
             style = (if ty = TextLayer
                      then Some \<lparr>color = Some ''#000000'', fontSize = Some 1,
                                  fontFamily = Some ''Inter'', fontWeight = Some ''bold'',
                                  backgroundColor = None\<rparr>
                      else None)\<rparr>
      in st\<lparr>layers := layers st @ [newLayer], selectedLayerId := Some uuid\<rparr>)"

section \<open>Editor canvas (CanvasWorkspace component)\<close>

text \<open>
  The workspace repeats the paper and printable-area derivation of the exporter line for
  line (lines 39-49), so \<open>printW\<close> and \<open>printH\<close> above serve for both.
  Its page counts are numbers: the grid inputs themselves in grid mode.
\<close>

definition posterDisplayWidth :: "PosterConfig \<Rightarrow> PaperSize \<Rightarrow> real" where
  "posterDisplayWidth cfg paperSize =
     (if mode cfg = GRID then gridCols cfg * printW cfg paperSize else targetWidth cfg)"

definition posterDisplayHeight :: "PosterConfig \<Rightarrow> PaperSize \<Rightarrow> real" where
  "posterDisplayHeight cfg paperSize =
     (if mode cfg = GRID then gridRows cfg * printH cfg paperSize else targetHeight cfg)"

definition displayCols :: "PosterConfig \<Rightarrow> PaperSize \<Rightarrow> real" where
  "displayCols cfg paperSize =
     (if mode cfg = GRID then gridCols cfg
      else of_int \<lceil>posterDisplayWidth cfg paperSize / printW cfg paperSize\<rceil>)"

definition displayRows :: "PosterConfig \<Rightarrow> PaperSize \<Rightarrow> real" where
  "displayRows cfg paperSize =
     (if mode cfg = GRID then gridRows cfg
      else of_int \<lceil>posterDisplayHeight cfg paperSize / printH cfg paperSize\<rceil>)"

definition displayScale :: "PosterConfig \<Rightarrow> real" where
  "displayScale cfg = (if isInch cfg then 25.4 else 1)"

definition visualW :: "AppState \<Rightarrow> real" where
  "visualW st =
     posterDisplayWidth (config st) (selectedPaper (config st)) * displayScale (config st)"

definition visualH :: "AppState \<Rightarrow> real" where
  "visualH st =
     posterDisplayHeight (config st) (selectedPaper (config st)) * displayScale (config st)"

definition handleMouseDown :: "real \<times> real \<Rightarrow> string \<Rightarrow> Handle option \<Rightarrow> AppState \<Rightarrow> AppState" where
  "handleMouseDown client layerId handle st =
     (case find (\<lambda>l. layer_id l = layerId) (layers st) of
        None \<Rightarrow> st
      | Some layer \<Rightarrow>
          st\<lparr>selectedLayerId := Some layerId,
             interaction :=
               \<lparr>imode = (if handle \<noteq> None then Resizing else Moving),
                activeHandle = handle,
                startMouse = client,
                startLayer = Some layer\<rparr>\<rparr>)"

definition MIN_SIZE :: real where
  "MIN_SIZE = 0.01"

text \<open>The \<open>switch\<close> on the active handle: the new \<open>(x, y, width, height)\<close>.\<close>

fun resize :: "Handle \<Rightarrow> Layer \<Rightarrow> real \<Rightarrow> real \<Rightarrow> real \<times> real \<times> real \<times> real" where
  "resize SE sl deltaXPct deltaYPct =
     (layer_x sl, layer_y sl,
      max MIN_SIZE (layer_width sl + deltaXPct),
      max MIN_SIZE (layer_height sl + deltaYPct))"
| "resize SW sl deltaXPct deltaYPct =
     (let proposedW = layer_width sl - deltaXPct;
          (newW, newX) =
            (if proposedW < MIN_SIZE
             then (MIN_SIZE, (layer_x sl + layer_width sl) - MIN_SIZE)
             else (proposedW, layer_x sl + deltaXPct))
      in (newX, layer_y sl, newW, max MIN_SIZE (layer_height sl + deltaYPct)))"
| "resize NE sl deltaXPct deltaYPct =
     (let newW = max MIN_SIZE (layer_width sl + deltaXPct);
          proposedH = layer_height sl - deltaYPct;
          (newH, newY) =
            (if proposedH < MIN_SIZE
             then (MIN_SIZE, (layer_y sl + layer_height sl) - MIN_SIZE)
             else (proposedH, layer_y sl + deltaYPct))
      in (layer_x sl, newY, newW, newH))"
| "resize NW sl deltaXPct deltaYPct =
     (let proposedW = layer_width sl - deltaXPct;
          proposedH = layer_height sl - deltaYPct;
          (newW, newX) =
            (if proposedW < MIN_SIZE
             then (MIN_SIZE, (layer_x sl + layer_width sl) - MIN_SIZE)
             else (proposedW, layer_x sl + deltaXPct));
          (newH, newY) =
            (if proposedH < MIN_SIZE
             then (MIN_SIZE, (layer_y sl + layer_height sl) - MIN_SIZE)
             else (proposedH, layer_y sl + deltaYPct))
      in (newX, newY, newW, newH))"

text \<open>
  \<open>!selectedLayerId\<close> holds of \<open>null\<close> and of the empty string. A resizing interaction
  with no active handle updates nothing.
\<close>

definition deltaXPct :: "real \<times> real \<Rightarrow> AppState \<Rightarrow> real" where
  "deltaXPct client st =
     ((fst client - fst (startMouse (interaction st))) / zoom st) / visualW st"

definition deltaYPct :: "real \<times> real \<Rightarrow> AppState \<Rightarrow> real" where
  "deltaYPct client st =
     ((snd client - snd (startMouse (interaction st))) / zoom st) / visualH st"

definition handleMouseMove :: "real \<times> real \<Rightarrow> AppState \<Rightarrow> AppState" where
  "handleMouseMove client st =
     (case (startLayer (interaction st), selectedLayerId st) of
        (Some sl, Some sel) \<Rightarrow>
          if imode (interaction st) = ModeNone \<or> sel = [] then st
          else if imode (interaction st) = Moving
          then updateLayer sel
                 (\<lambda>l. l\<lparr>layer_x := layer_x sl + deltaXPct client st,
                         layer_y := layer_y sl + deltaYPct client st\<rparr>) st
          else (case activeHandle (interaction st) of
                  None \<Rightarrow> st
                | Some h \<Rightarrow>
                    (case resize h sl (deltaXPct client st) (deltaYPct client st) of
                       (newX, newY, newW, newH) \<Rightarrow>
                         updateLayer sel
                           (\<lambda>l. l\<lparr>layer_x := newX, layer_y := newY,
                                   layer_width := newW, layer_height := newH\<rparr>) st))
      | _ \<Rightarrow> st)"

definition handleMouseUp :: "AppState \<Rightarrow> AppState" where
  "handleMouseUp st =
     st\<lparr>interaction :=
          \<lparr>imode = ModeNone, activeHandle = None, startMouse = (0, 0), startLayer = None\<rparr>\<rparr>"

section \<open>Initial state of the session (App component, lines 19-41)\<close>

definition initialConfig :: PosterConfig where
  "initialConfig =
     \<lparr>mode = GRID, unit = INCH, targetWidth = 36, targetHeight = 48,
      gridRows = 3, gridCols = 3, paperId = paper_id DEFAULT_PAPER,
      orientation = PORTRAIT, margin = 0.5, overlap = 0.25,
      showCutLines = True, cutLineStyle = CutDashed, showPageNumbers = True\<rparr>"

definition initialState :: AppState where
  "initialState =
     \<lparr>layers = [], selectedLayerId = None, zoom = 0.5, config = initialConfig,
      interaction =
        \<lparr>imode = ModeNone, activeHandle = None, startMouse = (0, 0), startLayer = None\<rparr>\<rparr>"

section \<open>Observations on the effects of an export\<close>

fun isAddPage :: "effect \<Rightarrow> bool" where
  "isAddPage (AddPage w h orient) = True"
| "isAddPage _ = False"

fun isDocSave :: "effect \<Rightarrow> bool" where
  "isDocSave (DocSave name) = True"
| "isDocSave _ = False"

fun isFillText :: "effect \<Rightarrow> bool" where
  "isFillText (CtxFillText line x y) = True"
| "isFillText _ = False"

fun isAddImage :: "effect \<Rightarrow> bool" where
  "isAddImage (AddImage fmt x y w h) = True"
| "isAddImage _ = False"



text \<open>A run of calls that neither adds a page nor saves the document.\<close>

definition plain :: "effect list \<Rightarrow> bool" where
  "plain es = list_all (\<lambda>e. \<not> isAddPage e \<and> \<not> isDocSave e) es"




text \<open>The lines of a text put together again, a line feed between two of them.\<close>

primrec joinLines :: "string list \<Rightarrow> string" where
  "joinLines [] = []"
| "joinLines (l # ls) = (if ls = [] then l else l @ CHR 0x0A # joinLines ls)"

text \<open>
  The font size as the specification words it: 0.05 times the surface height times the
  style's multiplier, the multiplier being 1 when it is absent.
\<close>

definition specFontSize :: "int \<Rightarrow> Layer \<Rightarrow> real" where
  "specFontSize ch layer =
     0.05 * of_int ch *
       (case style layer of
          None \<Rightarrow> 1
        | Some s \<Rightarrow> (case fontSize s of None \<Rightarrow> 1 | Some f \<Rightarrow> f))"

text \<open>
  Every outline and line that a run of calls strokes, with the dash pattern in force when
  it is drawn; the first argument is the pattern in force at the start.
\<close>

primrec strokes :: "real list \<Rightarrow> effect list \<Rightarrow> (effect \<times> real list) list" where
  "strokes d [] = []"
| "strokes d (e # es) =
     (case e of
        SetLineDashPattern p ph \<Rightarrow> strokes p es
      | Rect x y w h \<Rightarrow> (e, d) # strokes d es
      | Line x1 y1 x2 y2 \<Rightarrow> (e, d) # strokes d es
      | _ \<Rightarrow> strokes d es)"

text \<open>A point lies on a drawn line segment; a corner is marked when some line passes it.\<close>

definition onSegment :: "real \<times> real \<Rightarrow> effect \<Rightarrow> bool" where
  "onSegment p e =
     (case e of
        Line x1 y1 x2 y2 \<Rightarrow>
          (fst p - x1) * (y2 - y1) = (snd p - y1) * (x2 - x1)
          \<and> min x1 x2 \<le> fst p \<and> fst p \<le> max x1 x2
          \<and> min y1 y2 \<le> snd p \<and> snd p \<le> max y1 y2
      | _ \<Rightarrow> False)"

definition cornerMarked :: "effect list \<Rightarrow> real \<times> real \<Rightarrow> bool" where
  "cornerMarked es p = list_ex (onSegment p) es"

definition rectCorners :: "real \<Rightarrow> real \<Rightarrow> real \<Rightarrow> real \<Rightarrow> (real \<times> real) list" where
  "rectCorners x y w h = [(x, y), (x + w, y), (x, y + h), (x + w, y + h)]"

section \<open>Observations on a resize gesture\<close>

text \<open>The size a drag asks for, before the floor is applied.\<close>

fun proposedW :: "Handle \<Rightarrow> Layer \<Rightarrow> real \<Rightarrow> real" where
  "proposedW SE sl d = layer_width sl + d"
| "proposedW NE sl d = layer_width sl + d"
| "proposedW SW sl d = layer_width sl - d"
| "proposedW NW sl d = layer_width sl - d"

fun proposedH :: "Handle \<Rightarrow> Layer \<Rightarrow> real \<Rightarrow> real" where
  "proposedH SE sl d = layer_height sl + d"
| "proposedH SW sl d = layer_height sl + d"
| "proposedH NE sl d = layer_height sl - d"
| "proposedH NW sl d = layer_height sl - d"

text \<open>The corner opposite to a handle, of a box \<open>(x, y, width, height)\<close>.\<close>

fun fixedCorner :: "Handle \<Rightarrow> real \<times> real \<times> real \<times> real \<Rightarrow> real \<times> real" where
  "fixedCorner SE (x, y, w, h) = (x, y)"
| "fixedCorner SW (x, y, w, h) = (x + w, y)"
| "fixedCorner NE (x, y, w, h) = (x, y + h)"
| "fixedCorner NW (x, y, w, h) = (x + w, y + h)"

definition layerBox :: "Layer \<Rightarrow> real \<times> real \<times> real \<times> real" where
  "layerBox l = (layer_x l, layer_y l, layer_width l, layer_height l)"

section \<open>Sample inputs\<close>

definition letter :: PaperSize where
  "letter = selectedPaper initialConfig"

definition fullEnv :: Env where
  "fullEnv = \<lparr>ctxAvailable = True, tileCtxAvailable = True\<rparr>"

text \<open>
  The session's initial configuration (Letter, inches, 3 by 3 grid) with the margin field
  set to 0.3, as \<open>Number("0.3")\<close> reads it from the margin input.
\<close>

definition margin03Config :: PosterConfig where
  "margin03Config = initialConfig\<lparr>margin := fl64 0.3\<rparr>"

text \<open>
  Size mode on the initial configuration, with the margin field set to 1.6 and the width
  field to 37.1: seven printable widths of 5.3 inches.
\<close>

definition width371Config :: PosterConfig where
  "width371Config = initialConfig\<lparr>mode := SIZE, margin := fl64 1.6, targetWidth := fl64 37.1\<rparr>"



text \<open>A session in millimetres with a target width of 100 mm.\<close>

definition mmState :: AppState where
  "mmState =
     initialState\<lparr>config := initialConfig
       \<lparr>unit := MM, targetWidth := 100, targetHeight := 150, margin := 10, overlap := 5\<rparr>\<rparr>"

text \<open>The initial session with the margin field set to 0.125 (inches).\<close>

definition eighthInchState :: AppState where
  "eighthInchState = initialState\<lparr>config := initialConfig\<lparr>margin := 0.125\<rparr>\<rparr>"

text \<open>A session with one image layer and one two-line text layer.\<close>

definition twoLayerState :: AppState where
  "twoLayerState =
     handleAddLayer ''t1'' TextLayer (''Hello'' @ [CHR 0x0A] @ ''World'')
       (handleAddLayer ''i1'' ImageLayer ''data:image/png'' initialState)"

text \<open>The pointer goes down at (100, 100): on the image layer's north-west handle, ...\<close>

definition resizeState :: AppState where
  "resizeState = handleMouseDown (100, 100) ''i1'' (Some NW) twoLayerState"

text \<open>... or on the image layer itself.\<close>

definition moveState :: AppState where
  "moveState = handleMouseDown (100, 100) ''i1'' None twoLayerState"

definition textLayer :: Layer where
  "textLayer = last (layers twoLayerState)"

text \<open>The same text layer with the size field of its style emptied, which reads as 0.\<close>

definition zeroSizeLayer :: Layer where
  "zeroSizeLayer =
     textLayer\<lparr>style := Some \<lparr>color = Some ''#000000'', fontSize = Some 0,
                               fontFamily = Some ''Inter'', fontWeight = Some ''bold'',
                               backgroundColor = None\<rparr>\<rparr>"

section \<open>Facts about the sample inputs\<close>

lemma letter_eq: "letter = mkPaper ''letter'' ''Letter'' 215.9 279.4 ANSI"
  by (simp add: letter_def selectedPaper_def initialConfig_def DEFAULT_PAPER_def DEFAULT_PAPER_ID_def PAPER_SIZES_def mkPaper_def)

lemma letter_sizes: "paper_width letter = 215.9" "paper_height letter = 279.4"
  by (simp_all add: letter_eq mkPaper_def)


lemma initialConfig_fields:
  "mode initialConfig = GRID" "unit initialConfig = INCH"
  "targetWidth initialConfig = 36" "targetHeight initialConfig = 48"
  "gridRows initialConfig = 3" "gridCols initialConfig = 3"
  "orientation initialConfig = PORTRAIT" "margin initialConfig = 0.5"
  "overlap initialConfig = 0.25" "showCutLines initialConfig"
  "cutLineStyle initialConfig = CutDashed" "showPageNumbers initialConfig"
  by (simp_all add: initialConfig_def)

lemma initial_printable: "printW initialConfig letter = 7.5" "printH initialConfig letter = 10"
  by (simp_all add: printW_def printH_def pWidth_def pHeight_def paperWidth_def paperHeight_def
      isPortrait_def isInch_def initialConfig_fields letter_sizes)

lemma sample_papers:
  "selectedPaper margin03Config = letter" "selectedPaper width371Config = letter"
  by (simp_all add: letter_def selectedPaper_def margin03Config_def width371Config_def)

lemma initial_print:
  "printW_f64 initialConfig letter = 15 / 2"
  "printH_f64 initialConfig letter = 10"
  by code_simp+

lemma initial_poster:
  "posterWidth_f64 initialConfig letter = 45 / 2"
  "posterHeight_f64 initialConfig letter = 30"
  unfolding posterWidth_f64_def posterHeight_f64_def initial_print by code_simp+


lemma initial_canvas:
  "canvasWidth initialConfig letter = 2700"
  "canvasHeight initialConfig letter = 3600"
  unfolding canvasWidth_def canvasHeight_def initial_poster by code_simp+

lemma initial_tile_0_0:
  "srcX_f64 initialConfig letter 0 = 0"
  "srcY_f64 initialConfig letter 0 = 0"
  "srcW_f64 initialConfig letter 0 = 15 / 2"
  "srcH_f64 initialConfig letter 0 = 10"
  unfolding srcX_f64_def srcY_f64_def srcW_f64_def srcH_f64_def initial_poster initial_print by code_simp+

lemma margin03_print:
  "printW_f64 margin03Config letter = 4447304632028365 / 562949953421312"
  "printH_f64 margin03Config letter = 5854679515581645 / 562949953421312"
  by code_simp+

lemma margin03_poster:
  "posterWidth_f64 margin03Config letter = 1667739237010637 / 70368744177664"
  "posterHeight_f64 margin03Config letter = 2195504818343117 / 70368744177664"
  unfolding posterWidth_f64_def posterHeight_f64_def margin03_print by code_simp+

lemma margin03_counts:
  "cols_f64 margin03Config letter = 4"
  "rows_f64 margin03Config letter = 3"
  unfolding cols_f64_def rows_f64_def margin03_poster margin03_print by code_simp+

lemma margin03_canvas:
  "canvasWidth margin03Config letter = 2845"
  "canvasHeight margin03Config letter = 3745"
  unfolding canvasWidth_def canvasHeight_def margin03_poster by code_simp+

lemma margin03_tile_0_3:
  "srcX_f64 margin03Config letter 3 = 1667739237010637 / 70368744177664"
  "srcY_f64 margin03Config letter 0 = 0"
  "srcW_f64 margin03Config letter 3 = 0"
  "srcH_f64 margin03Config letter 0 = 5854679515581645 / 562949953421312"
  unfolding srcX_f64_def srcY_f64_def srcW_f64_def srcH_f64_def margin03_poster margin03_print by code_simp+

lemma width371_print:
  "printW_f64 width371Config letter = 5967269506265907 / 1125899906842624"
  "printH_f64 width371Config letter = 8782019273372467 / 1125899906842624"
  by code_simp+

lemma width371_poster:
  "posterWidth_f64 width371Config letter = 5221360817982669 / 140737488355328"
  "posterHeight_f64 width371Config letter = 48"
  unfolding posterWidth_f64_def posterHeight_f64_def width371_print by code_simp+

lemma width371_counts:
  "cols_f64 width371Config letter = 8"
  "rows_f64 width371Config letter = 7"
  unfolding cols_f64_def rows_f64_def width371_poster width371_print by code_simp+

lemma width371_canvas:
  "canvasWidth width371Config letter = 4452"
  "canvasHeight width371Config letter = 5760"
  unfolding canvasWidth_def canvasHeight_def width371_poster by code_simp+

lemma width371_tile_0_7:
  "srcX_f64 width371Config letter 7 = 5221360817982669 / 140737488355328"
  "srcY_f64 width371Config letter 0 = 0"
  "srcW_f64 width371Config letter 7 = 0"
  "srcH_f64 width371Config letter 0 = 8782019273372467 / 1125899906842624"
  unfolding srcX_f64_def srcY_f64_def srcW_f64_def srcH_f64_def width371_poster width371_print by code_simp+

lemma initial_marks:
  "isInch initialConfig" "markLen initialConfig = 0.2" "markOffset initialConfig = 0.08"
  by (simp_all add: isInch_def markLen_def markOffset_def initialConfig_fields)

lemma mmState_config:
  "unit (config mmState) = MM" "targetWidth (config mmState) = 100"
  "targetHeight (config mmState) = 150" "margin (config mmState) = 10"
  "overlap (config mmState) = 5"
  by (simp_all add: mmState_def initialState_def)

lemma textLayer_eq:
  "textLayer =
     \<lparr>layer_id = ''t1'', layer_type = TextLayer, content = ''Hello'' @ [CHR 0x0A] @ ''World'',
      layer_x = 0.25, layer_y = 0.25, layer_width = 0.5, layer_height = 0.2,
      rotation = 0, opacity = 1,
      style = Some \<lparr>color = Some ''#000000'', fontSize = Some 1,
                     fontFamily = Some ''Inter'', fontWeight = Some ''bold'',
                     backgroundColor = None\<rparr>\<rparr>"
  by (simp add: textLayer_def twoLayerState_def handleAddLayer_def initialState_def Let_def)

lemma textLayer_id: "layer_id textLayer = ''t1''"
  by (simp add: textLayer_def twoLayerState_def handleAddLayer_def initialState_def Let_def)

lemma textLayer_lines: "split_lines (content textLayer) = [''Hello'', ''World'']"
  by (simp add: textLayer_eq)

lemma twoLayerState_layers:
  "layers twoLayerState =
     [\<lparr>layer_id = ''i1'', layer_type = ImageLayer, content = ''data:image/png'',
       layer_x = 0.25, layer_y = 0.25, layer_width = 0.5, layer_height = 0.5,
       rotation = 0, opacity = 1, style = None\<rparr>,
      textLayer]"
  by (simp add: textLayer_def twoLayerState_def handleAddLayer_def initialState_def Let_def)

lemma twoLayerState_fields:
  "config twoLayerState = initialConfig" "zoom twoLayerState = 0.5"
  by (simp_all add: twoLayerState_def handleAddLayer_def initialState_def Let_def)

lemma initial_visual:
  "visualW twoLayerState = 571.5" "visualH twoLayerState = 762"
  by (simp_all add: visualW_def visualH_def twoLayerState_fields posterDisplayWidth_def
      posterDisplayHeight_def displayScale_def isInch_def initialConfig_fields
      letter_def[symmetric] initial_printable)

lemma resizeState_fields:
  "layers resizeState = layers twoLayerState"
  "config resizeState = initialConfig" "zoom resizeState = 0.5"
  "selectedLayerId resizeState = Some ''i1''"
  "interaction resizeState =
     \<lparr>imode = Resizing, activeHandle = Some NW, startMouse = (100, 100),
      startLayer = Some (hd (layers twoLayerState))\<rparr>"
  by (simp_all add: resizeState_def handleMouseDown_def twoLayerState_layers
      twoLayerState_fields)

lemma resizeState_visual: "visualW resizeState = 571.5" "visualH resizeState = 762"
  using initial_visual
  by (simp_all add: visualW_def visualH_def resizeState_fields twoLayerState_fields)

section \<open>Grid mode: the page counts\<close>

text \<open>
  \<open>ilog2\<close> is the binary exponent, \<open>rne\<close> rounds to a nearest integer, and so
  \<open>fl64 x\<close> is a multiple of the spacing \<open>u\<close> of the doubles around \<open>x\<close>, at most
  half a spacing away from \<open>x\<close>.
\<close>

lemma ilog2_ge1:
  fixes x :: real
  assumes "1 \<le> x"
  shows "2 powi (bitlen \<lfloor>x\<rfloor> - 1) \<le> x" "x < 2 powi (bitlen \<lfloor>x\<rfloor>)"
proof -
  let ?n = "\<lfloor>x\<rfloor>"
  have n: "0 < ?n" using assms by simp
  have b: "1 \<le> bitlen ?n" using n by (simp add: bitlen_ge_iff_power)
  have lo: "2 ^ nat (bitlen ?n - 1) \<le> ?n" and hi: "?n < 2 ^ nat (bitlen ?n)"
    using bitlen_bounds[OF n] by simp_all
  have "(2::real) ^ nat (bitlen ?n - 1) = of_int (2 ^ nat (bitlen ?n - 1))" by simp
  also have "\<dots> \<le> of_int ?n" using lo by (simp only: of_int_le_iff)
  also have "\<dots> \<le> x" by simp
  finally show "2 powi (bitlen ?n - 1) \<le> x"
    using b by (simp add: power_int_def)
  have "?n + 1 \<le> 2 ^ nat (bitlen ?n)" using hi by simp
  then have "of_int (?n + 1) \<le> (of_int (2 ^ nat (bitlen ?n)) :: real)"
    by (simp only: of_int_le_iff)
  then have "of_int ?n + 1 \<le> (2::real) ^ nat (bitlen ?n)" by simp
  moreover have "x < of_int ?n + 1" by linarith
  ultimately have "x < 2 ^ nat (bitlen ?n)" by (rule less_le_trans[rotated])
  then show "x < 2 powi (bitlen ?n)"
    using b by (simp add: power_int_def)
qed

lemma ilog2_bounds:
  fixes x :: real
  assumes "0 < x"
  shows "2 powi (ilog2 x) \<le> x \<and> x < 2 powi (ilog2 x + 1)"
proof (cases "1 \<le> x")
  case True
  then show ?thesis using ilog2_ge1[OF True] by (simp add: ilog2_def)
next
  case False
  let ?y = "1 / x"
  let ?m = "\<lceil>?y\<rceil> - 1"
  have y: "1 < ?y" using False assms by simp
  then have "1 < \<lceil>?y\<rceil>" by (simp add: less_ceiling_iff)
  then have m: "0 < ?m" by simp
  have b: "1 \<le> bitlen ?m" using m by (simp add: bitlen_ge_iff_power)
  have lo: "2 ^ nat (bitlen ?m - 1) \<le> ?m" and hi: "?m < 2 ^ nat (bitlen ?m)"
    using bitlen_bounds[OF m] by simp_all
  have my: "of_int ?m < ?y" "?y \<le> of_int ?m + 1" by linarith+
  have "(2::real) ^ nat (bitlen ?m - 1) = of_int (2 ^ nat (bitlen ?m - 1))" by simp
  also have "\<dots> \<le> of_int ?m" using lo by (simp only: of_int_le_iff)
  also have "\<dots> < ?y" using my by simp
  finally have 1: "(2::real) ^ nat (bitlen ?m - 1) < 1 / x" .
  have "?m + 1 \<le> 2 ^ nat (bitlen ?m)" using hi by simp
  then have "of_int (?m + 1) \<le> (of_int (2 ^ nat (bitlen ?m)) :: real)"
    by (simp only: of_int_le_iff)
  then have "of_int ?m + 1 \<le> (2::real) ^ nat (bitlen ?m)" by simp
  then have 2: "1 / x \<le> 2 ^ nat (bitlen ?m)" using my(2) by (rule order_trans[rotated])
  have u: "x < 1 / 2 ^ nat (bitlen ?m - 1)"
    using 1 assms by (simp add: field_simps)
  have l: "1 / 2 ^ nat (bitlen ?m) \<le> x"
    using 2 assms by (simp add: field_simps)
  have e1: "(2::real) powi (- bitlen ?m) = 1 / 2 ^ nat (bitlen ?m)"
    using b by (simp add: power_int_def field_simps)
  have e2: "(2::real) powi (1 - bitlen ?m) = 1 / 2 ^ nat (bitlen ?m - 1)"
  proof -
    have "1 - bitlen ?m = - (bitlen ?m - 1)" by simp
    then show ?thesis using b by (simp add: power_int_def field_simps nat_diff_distrib)
  qed
  have "ilog2 x = - bitlen ?m" using False by (simp add: ilog2_def)
  then have "(2::real) powi (ilog2 x) = 1 / 2 ^ nat (bitlen ?m)"
    and "(2::real) powi (ilog2 x + 1) = 1 / 2 ^ nat (bitlen ?m - 1)"
    using e1 e2 by simp_all
  then show ?thesis
    using l u by simp
qed

lemma rne_close: "\<bar>of_int (rne y) - y\<bar> \<le> 1 / 2"
  unfolding rne_def Let_def by (auto; linarith)

lemma fl64_nearest:
  assumes "x \<noteq> 0"
  defines "u \<equiv> 2 powi (max (ilog2 \<bar>x\<bar>) (- 1022) - 52)"
  shows "\<bar>fl64 x - x\<bar> \<le> u / 2" and "fl64 x / u \<in> \<int>"
proof -
  have u: "0 < u" by (simp add: u_def)
  have f: "fl64 x = sgn x * (of_int (rne (\<bar>x\<bar> / u)) * u)"
    using assms(1) by (simp add: fl64_def Let_def u_def)
  have "\<bar>fl64 x - x\<bar> = \<bar>sgn x * (of_int (rne (\<bar>x\<bar> / u)) * u) - sgn x * \<bar>x\<bar>\<bar>"
    by (simp add: f sgn_mult_abs)
  also have "\<dots> = \<bar>sgn x\<bar> * \<bar>of_int (rne (\<bar>x\<bar> / u)) * u - \<bar>x\<bar>\<bar>"
    by (simp only: right_diff_distrib[symmetric] abs_mult)
  also have "\<dots> = \<bar>of_int (rne (\<bar>x\<bar> / u)) - \<bar>x\<bar> / u\<bar> * u"
    using assms(1) u by (simp add: abs_sgn_eq field_simps abs_mult_pos[symmetric])
  also have "\<dots> \<le> 1 / 2 * u"
    using rne_close[of "\<bar>x\<bar> / u"] u by (intro mult_right_mono) simp_all
  finally show "\<bar>fl64 x - x\<bar> \<le> u / 2" by simp
  show "fl64 x / u \<in> \<int>"
    using u assms(1) by (cases "x < 0") (simp_all add: f sgn_if)
qed

text \<open>
  \<open>fl64\<close> on familiar values: numbers with a short binary expansion are kept; 0.1 and 0.3
  become the doubles next to them; and 0.1 + 0.2 is the double above 0.3.
\<close>

lemma fl64_samples:
  "fl64 3 = 3" "fl64 8.5 = 8.5" "fl64 (- 0.75) = - 0.75"
  "fl64 0.1 = 3602879701896397 / 2 ^ 55"
  "fl64 0.3 = 5404319552844595 / 2 ^ 54"
  "fl64 (fl64 0.1 + fl64 0.2) = 5404319552844596 / 2 ^ 54"
  by code_simp+

text \<open>
  C1. In grid mode the exporter should derive the page counts it was given
  (\<open>cols = gridCols\<close>, \<open>rows = gridRows\<close>) and cut full tiles only. It recomputes the
  counts as \<open>Math.ceil(posterWidth / printW)\<close> in double arithmetic, and there the claim
  fails: on Letter paper in inches with a margin of 0.3 and a grid of 3 by 3, the product
  \<open>3 * printW\<close> rounds up, the quotient rounds to the double above 3, and the exporter
  makes 4 columns, the fourth with a tile of width 0. The editor, which takes the grid
  counts as they are, shows 3.
\<close>

theorem grid_cols_f64_extra_column:
  "mode margin03Config = GRID
   \<and> gridCols margin03Config = 3 \<and> gridRows margin03Config = 3
   \<and> 0 < printW_f64 margin03Config (selectedPaper margin03Config)
   \<and> 0 < printH_f64 margin03Config (selectedPaper margin03Config)
   \<and> cols_f64 margin03Config (selectedPaper margin03Config) = 4
   \<and> rows_f64 margin03Config (selectedPaper margin03Config) = 3
   \<and> displayCols margin03Config (selectedPaper margin03Config) = 3
   \<and> srcW_f64 margin03Config (selectedPaper margin03Config) 3 = 0"
  unfolding sample_papers margin03_print margin03_counts margin03_tile_0_3
  by (simp add: margin03Config_def initialConfig_fields displayCols_def)

section \<open>Size mode: the last column\<close>

lemma fl64_zero: "fl64 0 = 0"
  by (simp add: fl64_def)

lemma tileOps_empty_width:
  assumes "srcW_f64 cfg paperSize c = 0"
  shows "tileOps env cfg paperSize r c = []"
  by (simp add: tileOps_def Let_def assms fl64_zero)

text \<open>
  C2. In size mode the last column's tile should be as wide as what remains of the target
  width, more than nothing, and be placed at that width. In double arithmetic the claim
  fails where the target width is a whole number of printable widths: on Letter paper in
  inches with a margin of 1.6, the printable width is 5.3 and a target width of 37.1 is
  seven of them, but \<open>37.1 / 5.3\<close> rounds to the double above 7, so the exporter makes 8
  columns; \<open>7 * 5.3\<close> rounds to 37.1, so the eighth column's tile has width 0, and on
  every page of that column no tile canvas is made and no image is placed.
\<close>

theorem size_mode_empty_last_column:
  "mode width371Config = SIZE
   \<and> targetWidth width371Config = fl64 37.1 \<and> margin width371Config = fl64 1.6
   \<and> 0 < targetWidth width371Config \<and> 0 < targetHeight width371Config
   \<and> 0 < printW_f64 width371Config (selectedPaper width371Config)
   \<and> 0 < printH_f64 width371Config (selectedPaper width371Config)
   \<and> \<lceil>(37.1 :: real) / (8.5 - 2 * 1.6)\<rceil> = 7
   \<and> cols_f64 width371Config (selectedPaper width371Config) = 8
   \<and> srcW_f64 width371Config (selectedPaper width371Config) 7 = 0
   \<and> tileOps env width371Config (selectedPaper width371Config) r 7 = []
   \<and> list_all (\<lambda>e. \<not> isAddImage e)
         (pageOps env width371Config (selectedPaper width371Config) r 7)"
proof -
  have t: "tileOps env width371Config letter r 7 = []"
    by (rule tileOps_empty_width) (simp add: width371_tile_0_7)
  have tw: "targetWidth width371Config = 5221360817982669 / 140737488355328"
    unfolding width371Config_def by code_simp
  have p: "list_all (\<lambda>e. \<not> isAddImage e) (pageOps env width371Config letter r 7)"
    by (simp add: pageOps_def t cutLineOps_def pageNumberOps_def scissorMarks_def Let_def)
  show ?thesis
    unfolding sample_papers
    using t p tw
    by (simp add: width371_print width371_counts width371_tile_0_7)
       (simp add: width371Config_def initialConfig_fields)
qed

section \<open>The margin error\<close>



section \<open>Resize gestures\<close>

lemma resize_floor:
  assumes "resize h sl dx dy = (nx, ny, nw, nh)"
  shows "(proposedW h sl dx < MIN_SIZE \<longrightarrow> nw = MIN_SIZE)
       \<and> (proposedH h sl dy < MIN_SIZE \<longrightarrow> nh = MIN_SIZE)
       \<and> MIN_SIZE \<le> nw \<and> MIN_SIZE \<le> nh"
  using assms by (cases h) (auto simp: Let_def split: if_splits)

lemma resize_fixed_corner:
  assumes "resize h sl dx dy = (nx, ny, nw, nh)"
  shows "fixedCorner h (nx, ny, nw, nh) = fixedCorner h (layerBox sl)"
  using assms by (cases h) (auto simp: Let_def layerBox_def split: if_splits)

lemma updateLayer_member:
  assumes "l \<in> set (layers (updateLayer i f st))" "layer_id l = i"
    and "\<And>k. layer_id (f k) = layer_id k"
  shows "\<exists>k \<in> set (layers st). l = f k"
  using assms by (auto simp: updateLayer_def split: if_splits)

text \<open>
  C4. During a resize gesture with any of the four corner handles, at a zoom factor and a
  surface size other than 0, every pointer position leaves the selected layer with a width
  and a height of at least 0.01; where the drag asks for less than 0.01 on an axis, the
  size on that axis is exactly 0.01; and the corner opposite to the handle is where it was
  at the start of the gesture, so the position is recomputed from the fixed edge whenever
  the size is clamped.
\<close>

theorem resize_clamp:
  assumes "imode (interaction st) = Resizing"
    and "activeHandle (interaction st) = Some h"
    and "startLayer (interaction st) = Some sl"
    and "selectedLayerId st = Some sel" and "sel \<noteq> []"
    and "l \<in> set (layers (handleMouseMove client st))" and "layer_id l = sel"
    and "zoom st \<noteq> 0" and "visualW st \<noteq> 0" and "visualH st \<noteq> 0"
  shows "(proposedW h sl (deltaXPct client st) < 0.01 \<longrightarrow> layer_width l = 0.01)
       \<and> (proposedH h sl (deltaYPct client st) < 0.01 \<longrightarrow> layer_height l = 0.01)
       \<and> fixedCorner h (layerBox l) = fixedCorner h (layerBox sl)
       \<and> 0.01 \<le> layer_width l \<and> 0.01 \<le> layer_height l"
proof -
  obtain nx ny nw nh where
    rs: "resize h sl (deltaXPct client st) (deltaYPct client st) = (nx, ny, nw, nh)"
    by (cases "resize h sl (deltaXPct client st) (deltaYPct client st)") auto
  let ?f = "\<lambda>k. k\<lparr>layer_x := nx, layer_y := ny, layer_width := nw, layer_height := nh\<rparr>"
  have "handleMouseMove client st = updateLayer sel ?f st"
    using assms(1-5) rs by (simp add: handleMouseMove_def)
  then obtain k where "l = ?f k"
    using updateLayer_member[of l sel ?f st] assms(6,7) by auto
  then have box: "layerBox l = (nx, ny, nw, nh)" by (simp add: layerBox_def)
  then have "layer_width l = nw" "layer_height l = nh" by (simp_all add: layerBox_def)
  then show ?thesis
    using resize_floor[OF rs] resize_fixed_corner[OF rs] box by (simp add: MIN_SIZE_def)
qed

lemma resizeState_delta:
  "deltaXPct (400, 600) resizeState = 400 / 381" "deltaYPct (400, 600) resizeState = 500 / 381"
  by (simp_all add: deltaXPct_def deltaYPct_def resizeState_fields resizeState_visual)

lemma resizeState_move:
  "layers (handleMouseMove (400, 600) resizeState) =
     [\<lparr>layer_id = ''i1'', layer_type = ImageLayer, content = ''data:image/png'',
       layer_x = 0.74, layer_y = 0.74, layer_width = 0.01, layer_height = 0.01,
       rotation = 0, opacity = 1, style = None\<rparr>,
      textLayer]"
  by (simp add: handleMouseMove_def resizeState_fields resizeState_delta updateLayer_def
      twoLayerState_layers textLayer_id MIN_SIZE_def Let_def)

text \<open>
  Dragging the north-west handle of the sample image layer far to the south-east clamps
  both axes: the layer ends 0.01 by 0.01 at (0.74, 0.74), its south-east corner still at
  (0.75, 0.75).
\<close>

theorem resize_clamp_witness:
  "imode (interaction resizeState) = Resizing
   \<and> activeHandle (interaction resizeState) = Some NW
   \<and> zoom resizeState = 0.5 \<and> visualW resizeState = 571.5 \<and> visualH resizeState = 762
   \<and> proposedW NW (hd (layers twoLayerState)) (deltaXPct (400, 600) resizeState) < 0.01
   \<and> proposedH NW (hd (layers twoLayerState)) (deltaYPct (400, 600) resizeState) < 0.01
   \<and> layerBox (hd (layers (handleMouseMove (400, 600) resizeState))) = (0.74, 0.74, 0.01, 0.01)
   \<and> fixedCorner NW (layerBox (hd (layers (handleMouseMove (400, 600) resizeState))))
       = (0.75, 0.75)
   \<and> fixedCorner NW (layerBox (hd (layers twoLayerState))) = (0.75, 0.75)"
proof -
  let ?l = "hd (layers (handleMouseMove (400, 600) resizeState))"
  have i: "imode (interaction resizeState) = Resizing"
    "activeHandle (interaction resizeState) = Some NW"
    "startLayer (interaction resizeState) = Some (hd (layers twoLayerState))"
    "selectedLayerId resizeState = Some ''i1''" "''i1'' \<noteq> []"
    by (simp_all add: resizeState_fields)
  have z: "zoom resizeState \<noteq> 0" "visualW resizeState \<noteq> 0" "visualH resizeState \<noteq> 0"
    by (simp_all add: resizeState_fields resizeState_visual)
  have m: "?l \<in> set (layers (handleMouseMove (400, 600) resizeState))" "layer_id ?l = ''i1''"
    by (simp_all add: resizeState_move)
  have p: "proposedW NW (hd (layers twoLayerState)) (deltaXPct (400, 600) resizeState) < 0.01"
    "proposedH NW (hd (layers twoLayerState)) (deltaYPct (400, 600) resizeState) < 0.01"
    by (simp_all add: resizeState_delta twoLayerState_layers)
  have b: "layerBox (hd (layers twoLayerState)) = (0.25, 0.25, 0.5, 0.5)"
    by (simp add: twoLayerState_layers layerBox_def)
  have w: "layer_width ?l = 0.01" and h: "layer_height ?l = 0.01"
    and f: "fixedCorner NW (layerBox ?l) = (0.75, 0.75)"
    using resize_clamp[OF i m z] p b by simp_all
  have "layerBox ?l = (0.74, 0.74, 0.01, 0.01)"
    using w h by (simp add: resizeState_move layerBox_def)
  then show ?thesis using i p w f b by (simp add: resizeState_fields resizeState_visual)
qed

section \<open>Move gestures\<close>

lemma handleMouseMove_interaction:
  "interaction (handleMouseMove p st) = interaction st"
  "selectedLayerId (handleMouseMove p st) = selectedLayerId st"
  "zoom (handleMouseMove p st) = zoom st"
  "config (handleMouseMove p st) = config st"
  by (auto simp: handleMouseMove_def updateLayer_def split: option.splits prod.splits)

lemma handleMouseMove_deltas:
  "deltaXPct q (handleMouseMove p st) = deltaXPct q st"
  "deltaYPct q (handleMouseMove p st) = deltaYPct q st"
  by (simp_all add: deltaXPct_def deltaYPct_def visualW_def visualH_def
      handleMouseMove_interaction)

lemma updateLayer_twice:
  assumes "\<And>l. layer_id (g l) = layer_id l" "\<And>l. f (g l) = f l"
  shows "updateLayer i f (updateLayer i g st) = updateLayer i f st"
  using assms by (simp add: updateLayer_def comp_def cong: map_cong)

lemma updateLayer_fields:
  "interaction (updateLayer i f st) = interaction st"
  "selectedLayerId (updateLayer i f st) = selectedLayerId st"
  "zoom (updateLayer i f st) = zoom st"
  "config (updateLayer i f st) = config st"
  by (simp_all add: updateLayer_def)

lemma handleMouseMove_last_wins:
  "handleMouseMove p (handleMouseMove q st) = handleMouseMove p st"
proof (cases "startLayer (interaction st)")
  case None
  then show ?thesis by (simp add: handleMouseMove_def)
next
  case (Some sl)
  show ?thesis
  proof (cases "selectedLayerId st")
    case None
    then show ?thesis using Some by (simp add: handleMouseMove_def)
  next
    case sel: (Some sel)
    show ?thesis
    proof (cases "imode (interaction st)")
      case ModeNone
      then show ?thesis using Some sel by (simp add: handleMouseMove_def)
    next
      case Moving
      have "handleMouseMove p (handleMouseMove q st)
            = (if sel = [] then handleMouseMove q st
               else updateLayer sel (\<lambda>l. l\<lparr>layer_x := layer_x sl + deltaXPct p st,
                         layer_y := layer_y sl + deltaYPct p st\<rparr>) (handleMouseMove q st))"
        using Some sel Moving
        by (subst handleMouseMove_def)
           (simp add: handleMouseMove_interaction handleMouseMove_deltas)
      then show ?thesis
        using Some sel Moving
        by (simp add: handleMouseMove_def[of _ st] updateLayer_twice)
    next
      case Resizing
      show ?thesis
      proof (cases "activeHandle (interaction st)")
        case None
        then show ?thesis using Some sel Resizing by (simp add: handleMouseMove_def)
      next
        case h: (Some h)
        obtain nx ny nw nh where
          rp: "resize h sl (deltaXPct p st) (deltaYPct p st) = (nx, ny, nw, nh)"
          by (cases "resize h sl (deltaXPct p st) (deltaYPct p st)") auto
        have "handleMouseMove p (handleMouseMove q st)
            = (if sel = [] then handleMouseMove q st
               else updateLayer sel (\<lambda>l. l\<lparr>layer_x := nx, layer_y := ny,
                         layer_width := nw, layer_height := nh\<rparr>) (handleMouseMove q st))"
          using Some sel Resizing h rp
          by (subst handleMouseMove_def)
             (simp add: handleMouseMove_interaction handleMouseMove_deltas)
        then show ?thesis
          using Some sel Resizing h rp
          by (auto simp: handleMouseMove_def[of _ st] updateLayer_twice split: prod.splits)
      qed
    qed
  qed
qed

lemma fold_handleMouseMove:
  "fold handleMouseMove (ps @ [p]) st = handleMouseMove p st"
proof (induction ps arbitrary: st)
  case Nil
  show ?case by simp
next
  case (Cons q ps)
  have "fold handleMouseMove ((q # ps) @ [p]) st = handleMouseMove p (handleMouseMove q st)"
    using Cons.IH[of "handleMouseMove q st"] by simp
  then show ?case by (simp only: handleMouseMove_last_wins)
qed

text \<open>
  C5. After the pointer goes down on a layer, a pointer-move event puts every layer with
  that identifier at the snapshot's position plus the pointer's total travel, divided by
  the zoom factor and by the surface's logical width (height): nothing else enters. So a
  pointer-move event is idempotent, and after any sequence of pointer-move events the
  state is the one that the last event alone produces.
\<close>

theorem move_gesture_snapshot:
  "(find (\<lambda>l. layer_id l = lid) (layers st) = Some l0 \<and> lid \<noteq> []
      \<and> zoom st \<noteq> 0 \<and> visualW st \<noteq> 0 \<and> visualH st \<noteq> 0 \<longrightarrow>
      layers (handleMouseMove p (handleMouseDown p0 lid None st)) =
        map (\<lambda>l. if layer_id l = lid
                 then l\<lparr>layer_x := layer_x l0 + ((fst p - fst p0) / zoom st) / visualW st,
                        layer_y := layer_y l0 + ((snd p - snd p0) / zoom st) / visualH st\<rparr>
                 else l)
            (layers st))
   \<and> handleMouseMove p (handleMouseMove p s) = handleMouseMove p s
   \<and> fold handleMouseMove (ps @ [p]) s = handleMouseMove p s"
proof (intro conjI impI)
  assume "find (\<lambda>l. layer_id l = lid) (layers st) = Some l0 \<and> lid \<noteq> []
      \<and> zoom st \<noteq> 0 \<and> visualW st \<noteq> 0 \<and> visualH st \<noteq> 0"
  then have a: "find (\<lambda>l. layer_id l = lid) (layers st) = Some l0 \<and> lid \<noteq> []"
    by simp
  let ?d = "handleMouseDown p0 lid None st"
  have d: "?d = st\<lparr>selectedLayerId := Some lid,
                     interaction := \<lparr>imode = Moving, activeHandle = None, startMouse = p0,
                                     startLayer = Some l0\<rparr>\<rparr>"
    using a by (simp add: handleMouseDown_def)
  have v: "visualW ?d = visualW st" "visualH ?d = visualH st"
    by (simp_all add: d visualW_def visualH_def)
  have dl: "deltaXPct p ?d = ((fst p - fst p0) / zoom st) / visualW st"
    "deltaYPct p ?d = ((snd p - snd p0) / zoom st) / visualH st"
    unfolding deltaXPct_def deltaYPct_def v by (simp_all add: d)
  have s: "startLayer (interaction ?d) = Some l0" "selectedLayerId ?d = Some lid"
    "imode (interaction ?d) = Moving" "layers ?d = layers st"
    by (simp_all add: d)
  have "handleMouseMove p ?d =
          updateLayer lid (\<lambda>l. l\<lparr>layer_x := layer_x l0 + deltaXPct p ?d,
                                    layer_y := layer_y l0 + deltaYPct p ?d\<rparr>) ?d"
    using a by (simp add: handleMouseMove_def s)
  then show "layers (handleMouseMove p ?d) =
        map (\<lambda>l. if layer_id l = lid
                 then l\<lparr>layer_x := layer_x l0 + ((fst p - fst p0) / zoom st) / visualW st,
                        layer_y := layer_y l0 + ((snd p - snd p0) / zoom st) / visualH st\<rparr>
                 else l)
            (layers st)"
    by (simp only: dl) (simp add: updateLayer_def s)
next
  show "handleMouseMove p (handleMouseMove p s) = handleMouseMove p s"
    by (rule handleMouseMove_last_wins)
next
  show "fold handleMouseMove (ps @ [p]) s = handleMouseMove p s"
    by (rule fold_handleMouseMove)
qed

text \<open>
  Moving the sample image layer at zoom 0.5: the pointer goes down at (100, 100); after a
  move to (400, 481) the layer is at (1981/1524, 5/4), also when two other moves came
  first.
\<close>

theorem move_gesture_snapshot_witness:
  "find (\<lambda>l. layer_id l = ''i1'') (layers twoLayerState) = Some (hd (layers twoLayerState))
   \<and> ''i1'' \<noteq> []
   \<and> zoom twoLayerState = 0.5 \<and> visualW twoLayerState = 571.5 \<and> visualH twoLayerState = 762
   \<and> layers (handleMouseMove (400, 481) moveState) =
       [(hd (layers twoLayerState))\<lparr>layer_x := 1981 / 1524, layer_y := 5 / 4\<rparr>, textLayer]
   \<and> fold handleMouseMove [(250, 330), (90, 70), (400, 481)] moveState
       = handleMouseMove (400, 481) moveState"
proof -
  have f: "find (\<lambda>l. layer_id l = ''i1'') (layers twoLayerState) = Some (hd (layers twoLayerState))
           \<and> ''i1'' \<noteq> []"
    by (simp add: twoLayerState_layers)
  note t = move_gesture_snapshot[of "''i1''" twoLayerState "hd (layers twoLayerState)"
      "(400, 481)" "(100, 100)" moveState "[(250, 330), (90, 70)]"]
  have "layers (handleMouseMove (400, 481) moveState) =
       [(hd (layers twoLayerState))\<lparr>layer_x := 1981 / 1524, layer_y := 5 / 4\<rparr>, textLayer]"
    using t f
    by (simp add: moveState_def[symmetric])
       (simp add: twoLayerState_layers textLayer_id initial_visual twoLayerState_fields)
  then show ?thesis using t f by (simp add: initial_visual twoLayerState_fields)
qed

section \<open>The unit toggle\<close>

lemma round_half_close:
  fixes y :: real
  shows "\<bar>of_int \<lfloor>y + 1 / 2\<rfloor> - y\<bar> \<le> 1 / 2"
  by linarith

lemma toFixed2_close: "\<bar>toFixed2 v - v\<bar> \<le> 1 / 200"
proof -
  have p: "\<bar>of_int \<lfloor>y * 100 + 1 / 2\<rfloor> / 100 - y\<bar> \<le> 1 / 200" for y :: real
    using round_half_close[of "y * 100"] by (simp add: field_simps)
  have n: "\<bar>- (of_int \<lfloor>(- v) * 100 + 1 / 2\<rfloor> / 100) - v\<bar> \<le> 1 / 200"
  proof -
    have "- (of_int \<lfloor>(- v) * 100 + 1 / 2\<rfloor> / 100) - v
          = - (of_int \<lfloor>(- v) * 100 + 1 / 2\<rfloor> / 100 - (- v))"
      by simp
    then show ?thesis using p[of "- v"] by (simp only: abs_minus_cancel)
  qed
  show ?thesis
  proof (cases "\<bar>v\<bar> \<ge> 10 ^ 21")
    case True
    then show ?thesis by (simp add: toFixed2_def)
  next
    case False
    then show ?thesis
      using p[of v] n by (cases "v < 0") (simp_all only: toFixed2_def if_False if_True)
  qed
qed

lemma toFixed2_centesimal:
  "\<bar>v\<bar> < 10 ^ 21 \<Longrightarrow> toFixed2 v * 100 \<in> \<int>"
  by (simp add: toFixed2_def)

text \<open>
  Rounding to a double costs at most a part in \<open>2^53\<close> of any bound on the magnitude;
  so a converted field is within 1/200 of the exact product, up to the rounding of the
  factor, of the product and of the printed value.
\<close>

lemma fl64_rel:
  assumes "\<bar>x\<bar> \<le> B" and "1 \<le> B"
  shows "\<bar>fl64 x - x\<bar> \<le> B / 2 ^ 53"
proof (cases "x = 0")
  case True
  then show ?thesis using assms by (simp add: fl64_def)
next
  case False
  define m where "m = max (ilog2 \<bar>x\<bar>) (- 1022)"
  have b: "2 powi (ilog2 \<bar>x\<bar>) \<le> \<bar>x\<bar>"
    using ilog2_bounds[of "\<bar>x\<bar>"] False by simp
  have "(2::real) powi (- 1022) \<le> 1"
    by (simp add: power_int_minus field_simps)
  then have pm: "2 powi m \<le> B"
    using b assms by (auto simp: m_def max_def)
  have "(2::real) powi (m - 52) = 2 powi m / 2 powi 52"
    by (simp add: power_int_diff)
  then have u: "(2::real) powi (m - 52) / 2 = 2 powi m / 2 ^ 53"
    by simp
  have "\<bar>fl64 x - x\<bar> \<le> 2 powi (m - 52) / 2"
    using fl64_nearest(1)[OF False] by (simp add: m_def)
  also have "\<dots> = 2 powi m / 2 ^ 53" by (rule u)
  also have "\<dots> \<le> B / 2 ^ 53" using pm by (simp add: divide_right_mono)
  finally show ?thesis .
qed

lemma convertField_close:
  assumes "\<bar>v\<bar> \<le> V" and "\<bar>factor - g\<bar> \<le> e" and "\<bar>factor\<bar> \<le> F"
    and "V * F \<le> B" and "1 \<le> B" and "B \<le> 2 ^ 52"
  shows "\<bar>convertField v factor - v * g\<bar> \<le> 1 / 200 + V * e + (2 * B + 1) / 2 ^ 53"
proof -
  let ?a = "v * factor"
  let ?p = "fl64 ?a"
  let ?r = "toFixed2 ?p"
  have V0: "0 \<le> V" using assms(1) by linarith
  have "\<bar>?a\<bar> = \<bar>v\<bar> * \<bar>factor\<bar>" by (simp add: abs_mult)
  also have "\<dots> \<le> V * F"
    using assms(1,3) by (intro mult_mono) simp_all
  finally have a: "\<bar>?a\<bar> \<le> B" using assms(4) by linarith
  have "\<bar>?a - v * g\<bar> = \<bar>v\<bar> * \<bar>factor - g\<bar>"
    by (simp add: abs_mult[symmetric] right_diff_distrib)
  also have "\<dots> \<le> V * e"
    using assms(1,2) by (intro mult_mono) simp_all
  finally have 1: "\<bar>?a - v * g\<bar> \<le> V * e" .
  have 2: "\<bar>?p - ?a\<bar> \<le> B / 2 ^ 53" by (rule fl64_rel[OF a assms(5)])
  have 3: "\<bar>?r - ?p\<bar> \<le> 1 / 200" by (rule toFixed2_close)
  have h: "B / 2 ^ 53 \<le> 1 / 2" using assms(6) by (simp add: field_simps)
  have r: "\<bar>?r\<bar> \<le> B + 1" using a 2 3 h by linarith
  have "1 \<le> B + 1" using assms(5) by simp
  then have 4: "\<bar>fl64 ?r - ?r\<bar> \<le> (B + 1) / 2 ^ 53" by (rule fl64_rel[OF r])
  have "(2 * B + 1) / 2 ^ 53 = B / 2 ^ 53 + (B + 1) / 2 ^ 53"
    by (simp add: field_simps)
  then show ?thesis
    unfolding convertField_def using 1 2 3 4 by linarith
qed

text \<open>
  The two factors of \<open>toggleUnit\<close> as doubles: \<open>1 / 25.4\<close> is a rounded quotient,
  25.4 a rounded literal.
\<close>

lemma factor_values:
  "toInch = 2836913151099525 / 72057594037927936"
  "toMM = 3574732204225331 / 140737488355328"
  unfolding toInch_def toMM_def by code_simp+

lemma factor_bounds:
  "\<bar>toInch - 1 / 25.4\<bar> \<le> 1 / 10 ^ 18" "\<bar>toInch\<bar> \<le> 1 / 25"
  "\<bar>toMM - 25.4\<bar> \<le> 1 / 10 ^ 14" "\<bar>toMM\<bar> \<le> 26"
  by (simp_all add: factor_values)

text \<open>
  One conversion against the exact quotient or product, on the range of magnitudes a
  poster dimension can take.
\<close>

lemma to_inch_close:
  assumes "\<bar>v\<bar> \<le> 10 ^ 6"
  shows "\<bar>convertField v toInch - v / 25.4\<bar> \<le> 1 / 200 + 1 / 10 ^ 10"
proof -
  have "\<bar>convertField v toInch - v * (1 / 25.4)\<bar>
        \<le> 1 / 200 + 10 ^ 6 * (1 / 10 ^ 18) + (2 * 40000 + 1) / 2 ^ 53"
    by (rule convertField_close[OF assms factor_bounds(1,2)]) simp_all
  also have "\<dots> \<le> 1 / 200 + 1 / 10 ^ 10" by simp
  finally show ?thesis by simp
qed

lemma to_mm_close:
  assumes "\<bar>w\<bar> \<le> 40000"
  shows "\<bar>convertField w toMM - w * 25.4\<bar> \<le> 1 / 200 + 1 / 10 ^ 9"
proof -
  have "\<bar>convertField w toMM - w * 25.4\<bar>
        \<le> 1 / 200 + 40000 * (1 / 10 ^ 14) + (2 * 1040000 + 1) / 2 ^ 53"
    by (rule convertField_close[OF assms factor_bounds(3,4)]) simp_all
  also have "\<dots> \<le> 1 / 200 + 1 / 10 ^ 9" by simp
  finally show ?thesis .
qed

lemma roundtrip_bound:
  assumes "\<bar>v\<bar> \<le> 10 ^ 6"
  shows "\<bar>convertField (convertField v toInch) toMM - v\<bar> \<le> 0.133"
proof -
  define q where "q = v / 25.4"
  define s where "s = convertField v toInch"
  have "\<bar>s - q\<bar> \<le> 1 / 200 + 1 / 10 ^ 10"
    unfolding s_def q_def by (rule to_inch_close[OF assms])
  then have 1: "\<bar>s - q\<bar> \<le> 50001 / 10000000" by simp
  have "\<bar>q\<bar> \<le> 10 ^ 6 / 25.4" using assms by (simp add: q_def field_simps)
  then have q: "\<bar>q\<bar> \<le> 39371" by simp
  have sb: "\<bar>s\<bar> \<le> 40000" using 1 q by linarith
  have "\<bar>convertField s toMM - s * 25.4\<bar> \<le> 1 / 200 + 1 / 10 ^ 9"
    by (rule to_mm_close[OF sb])
  then have 2: "\<bar>convertField s toMM - s * 25.4\<bar> \<le> 51 / 10000" by simp
  have "s * 25.4 - v = 25.4 * (s - q)" by (simp add: q_def field_simps)
  then have "\<bar>s * 25.4 - v\<bar> = \<bar>25.4 * (s - q)\<bar>" by (rule arg_cong)
  also have "\<dots> = 25.4 * \<bar>s - q\<bar>" using abs_mult[of "25.4" "s - q"] by simp
  also have "\<dots> \<le> 25.4 * (50001 / 10000000)" using 1 by (intro mult_left_mono) simp_all
  also have "\<dots> \<le> 1271 / 10000" by simp
  finally have 3: "\<bar>s * 25.4 - v\<bar> \<le> 1271 / 10000" .
  have "\<bar>convertField s toMM - v\<bar> \<le> 133 / 1000"
  proof -
    have "\<bar>convertField s toMM - v\<bar>
          \<le> \<bar>convertField s toMM - s * 25.4\<bar> + \<bar>s * 25.4 - v\<bar>"
      by linarith
    also have "\<dots> \<le> 51 / 10000 + 1271 / 10000" using 2 3 by (rule add_mono)
    also have "\<dots> \<le> 133 / 1000" by simp
    finally show ?thesis .
  qed
  then show ?thesis by (simp add: s_def)
qed

lemma toggleUnit_from_mm:
  assumes "unit (config st) = MM"
  shows "unit (config (toggleUnit st)) = INCH"
    and "unit (config (toggleUnit (toggleUnit st))) = MM"
    and "targetWidth (config (toggleUnit (toggleUnit st)))
         = convertField (convertField (targetWidth (config st)) toInch) toMM"
    and "targetHeight (config (toggleUnit (toggleUnit st)))
         = convertField (convertField (targetHeight (config st)) toInch) toMM"
    and "margin (config (toggleUnit (toggleUnit st)))
         = convertField (convertField (margin (config st)) toInch) toMM"
    and "overlap (config (toggleUnit (toggleUnit st)))
         = convertField (convertField (overlap (config st)) toInch) toMM"
  using assms by (simp_all add: toggleUnit_def Let_def)

text \<open>
  C6, as amended. Toggling a session in millimetres to inches and back, each step a double
  multiplication by the double \<open>1 / 25.4\<close> or 25.4 followed by rounding to two decimals,
  returns every positive physical field of at most \<open>10^6\<close> mm to within 0.133 of its
  value: the first rounding's 0.005 inch is 0.127 mm, the second rounding adds at most
  0.005 mm, and the double roundings stay below 0.001 on that range.
\<close>

theorem toggle_roundtrip_bound:
  assumes "unit (config st) = MM"
  shows "unit (config (toggleUnit st)) = INCH
       \<and> unit (config (toggleUnit (toggleUnit st))) = MM
       \<and> (0 < targetWidth (config st) \<and> targetWidth (config st) \<le> 10 ^ 6 \<longrightarrow>
            \<bar>targetWidth (config (toggleUnit (toggleUnit st))) - targetWidth (config st)\<bar>
              \<le> 0.133)
       \<and> (0 < targetHeight (config st) \<and> targetHeight (config st) \<le> 10 ^ 6 \<longrightarrow>
            \<bar>targetHeight (config (toggleUnit (toggleUnit st))) - targetHeight (config st)\<bar>
              \<le> 0.133)
       \<and> (0 < margin (config st) \<and> margin (config st) \<le> 10 ^ 6 \<longrightarrow>
            \<bar>margin (config (toggleUnit (toggleUnit st))) - margin (config st)\<bar> \<le> 0.133)
       \<and> (0 < overlap (config st) \<and> overlap (config st) \<le> 10 ^ 6 \<longrightarrow>
            \<bar>overlap (config (toggleUnit (toggleUnit st))) - overlap (config st)\<bar> \<le> 0.133)"
  unfolding toggleUnit_from_mm[OF assms]
  by (intro conjI impI refl roundtrip_bound) simp_all

text \<open>
  Conversions of the sample values, evaluated with the double rounding of every step.
\<close>

lemma mm_samples:
  "convertField 100 toInch = fl64 3.94" "convertField (fl64 3.94) toMM = fl64 100.08"
  "convertField 150 toInch = fl64 5.91" "convertField (fl64 5.91) toMM = fl64 150.11"
  "convertField 10 toInch = fl64 0.39" "convertField (fl64 0.39) toMM = fl64 9.91"
  "convertField 5 toInch = fl64 0.2" "convertField (fl64 0.2) toMM = fl64 5.08"
  "convertField 0.125 toMM = fl64 3.17"
  "fl64 100.08 = 7042503917300613 / 70368744177664"
  by code_simp+

text \<open>
  C6, as stated (the round trip stays within 0.01 of the value), fails: 100 mm becomes
  3.94 in and comes back as 100.08 mm.
\<close>

theorem toggle_roundtrip_counterexample:
  "unit (config mmState) = MM \<and> 0 < targetWidth (config mmState)
   \<and> targetWidth (config mmState) = 100
   \<and> targetWidth (config (toggleUnit mmState)) = fl64 3.94
   \<and> targetWidth (config (toggleUnit (toggleUnit mmState))) = fl64 100.08
   \<and> \<not> \<bar>targetWidth (config (toggleUnit (toggleUnit mmState)))
          - targetWidth (config mmState)\<bar> \<le> 0.01"
proof -
  have 1: "targetWidth (config (toggleUnit mmState)) = fl64 3.94"
    using mm_samples(1) by (simp add: toggleUnit_def Let_def mmState_config)
  have 2: "targetWidth (config (toggleUnit (toggleUnit mmState))) = fl64 100.08"
    using mm_samples(1,2) by (simp add: toggleUnit_from_mm mmState_config)
  show ?thesis unfolding 1 2 using mm_samples(10) by (simp add: mmState_config)
qed

text \<open>
  The millimetre session toggled twice: 100 by 150 mm with margin 10 and overlap 5 come
  back as 100.08 by 150.11 mm with margin 9.91 and overlap 5.08, each within the bound.
\<close>

theorem toggle_roundtrip_bound_witness:
  "unit (config mmState) = MM
   \<and> 0 < targetWidth (config mmState) \<and> targetWidth (config mmState) \<le> 10 ^ 6
   \<and> 0 < targetHeight (config mmState) \<and> targetHeight (config mmState) \<le> 10 ^ 6
   \<and> 0 < margin (config mmState) \<and> margin (config mmState) \<le> 10 ^ 6
   \<and> 0 < overlap (config mmState) \<and> overlap (config mmState) \<le> 10 ^ 6
   \<and> targetWidth (config (toggleUnit (toggleUnit mmState))) = fl64 100.08
   \<and> targetHeight (config (toggleUnit (toggleUnit mmState))) = fl64 150.11
   \<and> margin (config (toggleUnit (toggleUnit mmState))) = fl64 9.91
   \<and> overlap (config (toggleUnit (toggleUnit mmState))) = fl64 5.08
   \<and> \<bar>targetWidth (config (toggleUnit (toggleUnit mmState)))
        - targetWidth (config mmState)\<bar> \<le> 0.133
   \<and> \<bar>targetHeight (config (toggleUnit (toggleUnit mmState)))
        - targetHeight (config mmState)\<bar> \<le> 0.133
   \<and> \<bar>margin (config (toggleUnit (toggleUnit mmState))) - margin (config mmState)\<bar> \<le> 0.133
   \<and> \<bar>overlap (config (toggleUnit (toggleUnit mmState))) - overlap (config mmState)\<bar>
       \<le> 0.133"
proof -
  have u: "unit (config mmState) = MM" by (simp add: mmState_config)
  have b: "0 < targetWidth (config mmState) \<and> targetWidth (config mmState) \<le> 10 ^ 6"
    "0 < targetHeight (config mmState) \<and> targetHeight (config mmState) \<le> 10 ^ 6"
    "0 < margin (config mmState) \<and> margin (config mmState) \<le> 10 ^ 6"
    "0 < overlap (config mmState) \<and> overlap (config mmState) \<le> 10 ^ 6"
    by (simp_all add: mmState_config)
  have v: "targetWidth (config (toggleUnit (toggleUnit mmState))) = fl64 100.08"
    "targetHeight (config (toggleUnit (toggleUnit mmState))) = fl64 150.11"
    "margin (config (toggleUnit (toggleUnit mmState))) = fl64 9.91"
    "overlap (config (toggleUnit (toggleUnit mmState))) = fl64 5.08"
    using mm_samples by (simp_all add: toggleUnit_from_mm mmState_config)
  have d: "\<bar>targetWidth (config (toggleUnit (toggleUnit mmState)))
        - targetWidth (config mmState)\<bar> \<le> 0.133"
    "\<bar>targetHeight (config (toggleUnit (toggleUnit mmState)))
        - targetHeight (config mmState)\<bar> \<le> 0.133"
    "\<bar>margin (config (toggleUnit (toggleUnit mmState))) - margin (config mmState)\<bar> \<le> 0.133"
    "\<bar>overlap (config (toggleUnit (toggleUnit mmState))) - overlap (config mmState)\<bar>
       \<le> 0.133"
    using toggle_roundtrip_bound[OF u] b by blast+
  show ?thesis using u b v d by (intro conjI) simp_all
qed

text \<open>
  C10. The unit toggle flips the unit and replaces the four physical fields (target width
  and height, margin, overlap) by their double products with the double \<open>1 / 25.4\<close> or
  25.4, rounded to two decimals and read back as a double: the rounding gives a multiple of
  1/100 within 1/200 of the double product, and the field is within 1/200 and a rounding
  error of the exact quotient or product. Every other field of the configuration, the layer
  list and the rest of the session state stay as they are.
\<close>

theorem toggleUnit_frame:
  "unit (config (toggleUnit st)) = (if unit (config st) = MM then INCH else MM)
   \<and> unit (config (toggleUnit st)) \<noteq> unit (config st)
   \<and> targetWidth (config (toggleUnit st))
       = convertField (targetWidth (config st)) (if unit (config st) = MM then toInch else toMM)
   \<and> targetHeight (config (toggleUnit st))
       = convertField (targetHeight (config st)) (if unit (config st) = MM then toInch else toMM)
   \<and> margin (config (toggleUnit st))
       = convertField (margin (config st)) (if unit (config st) = MM then toInch else toMM)
   \<and> overlap (config (toggleUnit st))
       = convertField (overlap (config st)) (if unit (config st) = MM then toInch else toMM)
   \<and> mode (config (toggleUnit st)) = mode (config st)
   \<and> gridRows (config (toggleUnit st)) = gridRows (config st)
   \<and> gridCols (config (toggleUnit st)) = gridCols (config st)
   \<and> paperId (config (toggleUnit st)) = paperId (config st)
   \<and> orientation (config (toggleUnit st)) = orientation (config st)
   \<and> showCutLines (config (toggleUnit st)) = showCutLines (config st)
   \<and> cutLineStyle (config (toggleUnit st)) = cutLineStyle (config st)
   \<and> showPageNumbers (config (toggleUnit st)) = showPageNumbers (config st)
   \<and> layers (toggleUnit st) = layers st
   \<and> selectedLayerId (toggleUnit st) = selectedLayerId st
   \<and> zoom (toggleUnit st) = zoom st
   \<and> interaction (toggleUnit st) = interaction st
   \<and> convertField v factor = fl64 (toFixed2 (fl64 (v * factor)))
   \<and> (\<bar>w\<bar> < 10 ^ 21 \<longrightarrow> toFixed2 w * 100 \<in> \<int>)
   \<and> \<bar>toFixed2 w - w\<bar> \<le> 1 / 200
   \<and> (\<bar>v\<bar> \<le> 10 ^ 6 \<longrightarrow>
        \<bar>convertField v toInch - v / 25.4\<bar> \<le> 1 / 200 + 1 / 10 ^ 10)
   \<and> (\<bar>v\<bar> \<le> 40000 \<longrightarrow>
        \<bar>convertField v toMM - v * 25.4\<bar> \<le> 1 / 200 + 1 / 10 ^ 9)"
proof -
  have "unit (config st) = MM \<or> unit (config st) = INCH"
    by (cases "unit (config st)") simp_all
  then have f: "unit (config (toggleUnit st)) = (if unit (config st) = MM then INCH else MM)
   \<and> unit (config (toggleUnit st)) \<noteq> unit (config st)
   \<and> targetWidth (config (toggleUnit st))
       = convertField (targetWidth (config st)) (if unit (config st) = MM then toInch else toMM)
   \<and> targetHeight (config (toggleUnit st))
       = convertField (targetHeight (config st)) (if unit (config st) = MM then toInch else toMM)
   \<and> margin (config (toggleUnit st))
       = convertField (margin (config st)) (if unit (config st) = MM then toInch else toMM)
   \<and> overlap (config (toggleUnit st))
       = convertField (overlap (config st)) (if unit (config st) = MM then toInch else toMM)"
    by (auto simp: toggleUnit_def Let_def)
  have g: "mode (config (toggleUnit st)) = mode (config st)
   \<and> gridRows (config (toggleUnit st)) = gridRows (config st)
   \<and> gridCols (config (toggleUnit st)) = gridCols (config st)
   \<and> paperId (config (toggleUnit st)) = paperId (config st)
   \<and> orientation (config (toggleUnit st)) = orientation (config st)
   \<and> showCutLines (config (toggleUnit st)) = showCutLines (config st)
   \<and> cutLineStyle (config (toggleUnit st)) = cutLineStyle (config st)
   \<and> showPageNumbers (config (toggleUnit st)) = showPageNumbers (config st)
   \<and> layers (toggleUnit st) = layers st
   \<and> selectedLayerId (toggleUnit st) = selectedLayerId st
   \<and> zoom (toggleUnit st) = zoom st
   \<and> interaction (toggleUnit st) = interaction st"
    by (simp add: toggleUnit_def Let_def)
  show ?thesis
    using f g toFixed2_close[of w] toFixed2_centesimal[of w] to_inch_close[of v]
      to_mm_close[of v]
    by (simp add: convertField_def)
qed

text \<open>
  The millimetre session toggled to inches: 100 by 150 mm with margin 10 and overlap 5
  become 3.94 by 5.91 in with margin 0.39 and overlap 0.2. A margin of 0.125 in becomes
  3.17 mm: the double product lies just below 3.175, whose own rounding would be 3.18.
\<close>

theorem toggleUnit_frame_witness:
  "unit (config (toggleUnit mmState)) = INCH
   \<and> targetWidth (config (toggleUnit mmState)) = fl64 3.94
   \<and> targetHeight (config (toggleUnit mmState)) = fl64 5.91
   \<and> margin (config (toggleUnit mmState)) = fl64 0.39
   \<and> overlap (config (toggleUnit mmState)) = fl64 0.2
   \<and> mode (config (toggleUnit mmState)) = GRID
   \<and> layers (toggleUnit twoLayerState) = layers twoLayerState
   \<and> unit (config (toggleUnit eighthInchState)) = MM
   \<and> margin (config eighthInchState) = 0.125
   \<and> margin (config (toggleUnit eighthInchState)) = fl64 3.17
   \<and> \<bar>3.175 :: real\<bar> < 10 ^ 21 \<and> toFixed2 3.175 * 100 = 318
   \<and> \<bar>100 :: real\<bar> \<le> 10 ^ 6
   \<and> \<bar>convertField 100 toInch - 100 / 25.4\<bar> \<le> 1 / 200 + 1 / 10 ^ 10
   \<and> \<bar>100 :: real\<bar> \<le> 40000
   \<and> \<bar>convertField 100 toMM - 100 * 25.4\<bar> \<le> 1 / 200 + 1 / 10 ^ 9"
proof -
  have t: "toFixed2 3.175 * 100 = 318" by (simp add: toFixed2_def)
  have e: "unit (config eighthInchState) = INCH" "margin (config eighthInchState) = 0.125"
    by (simp_all add: eighthInchState_def initialState_def initialConfig_fields)
  have m: "mode (config mmState) = GRID"
    by (simp add: mmState_def initialState_def initialConfig_fields)
  show ?thesis
    using toggleUnit_frame[of mmState 100 toInch "3.175"]
      toggleUnit_frame[of twoLayerState 100 toMM 0]
      toggleUnit_frame[of eighthInchState 100 toMM 0] t e m mm_samples
    by (simp add: mmState_config)
qed

section \<open>Text layers\<close>

lemma split_lines_nonempty: "split_lines s \<noteq> []"
  by (induction s) (auto split: list.splits)

lemma join_split_lines: "joinLines (split_lines s) = s"
  by (induction s) (auto simp: split_lines_nonempty split: list.splits)

lemma split_lines_no_feed: "l \<in> set (split_lines s) \<Longrightarrow> CHR 0x0A \<notin> set l"
  by (induction s arbitrary: l) (auto split: list.splits if_splits)

lemma filter_fillText_lines:
  "filter isFillText (map (\<lambda>(i, line). CtxFillText line x (f i)) ps)
   = map (\<lambda>(i, line). CtxFillText line x (f i)) ps"
  by (induction ps) auto

text \<open>
  C8, as amended. The compositor draws a text layer at font size 0.05 times the surface
  height times the style's multiplier, the multiplier being 1 when it is absent or zero;
  the baseline is \<open>top\<close>; the content is cut at its line feeds and nowhere else (the
  lines joined by line feeds are the content, and no line holds a line feed); line \<open>i\<close>
  is drawn at the layer's left edge, \<open>i\<close> times 1.2 font sizes below the layer's top.
  These calls are among those of every export that has the layer and does not fail.
\<close>

theorem text_layer_rendering:
  assumes "layer_type layer = TextLayer"
  shows "(let fs = 0.05 * of_int ch * fontSizeMultiplier layer;
              lx = layer_x layer * of_int cw;
              ly = layer_y layer * of_int ch;
              lns = split_lines (content layer)
          in CtxFont (styleString fontWeight ''normal'' layer) fs
                     (styleString fontFamily ''sans-serif'' layer)
               \<in> set (drawLayer cw ch layer)
           \<and> CtxTextBaseline ''top'' \<in> set (drawLayer cw ch layer)
           \<and> filter isFillText (drawLayer cw ch layer)
               = map (\<lambda>(i, line). CtxFillText line lx (ly + of_nat i * (1.2 * fs)))
                     (enumerate 0 lns)
           \<and> joinLines lns = content layer
           \<and> (\<forall>l \<in> set lns. CHR 0x0A \<notin> set l))
       \<and> (0 < printW cfg paperSize \<and> 0 < printH cfg paperSize \<and> ctxAvailable env
            \<and> layer \<in> set ls \<longrightarrow>
          set (drawLayer (canvasWidth cfg paperSize) (canvasHeight cfg paperSize) layer)
            \<subseteq> set (fst (generateTiledPDF env cfg ls paperSize)))
       \<and> fontSizeMultiplier layer =
           (case style layer of
              None \<Rightarrow> 1
            | Some s \<Rightarrow> (case fontSize s of
                           None \<Rightarrow> 1
                         | Some f \<Rightarrow> if f = 0 then 1 else f))"
proof -
  have t: "textFontSize ch layer = 0.05 * of_int ch * fontSizeMultiplier layer"
    by (simp add: textFontSize_def)
  have f: "filter isFillText (drawLayer cw ch layer)
           = map (\<lambda>(i, line). CtxFillText line (layer_x layer * of_int cw)
                    (layer_y layer * of_int ch
                     + of_nat i * (1.2 * (0.05 * of_int ch * fontSizeMultiplier layer))))
                 (enumerate 0 (split_lines (content layer)))"
    using assms
    by (simp add: drawLayer_def drawText_def Let_def t filter_fillText_lines mult.assoc)
  have m: "CtxFont (styleString fontWeight ''normal'' layer)
             (0.05 * of_int ch * fontSizeMultiplier layer)
             (styleString fontFamily ''sans-serif'' layer) \<in> set (drawLayer cw ch layer)"
    "CtxTextBaseline ''top'' \<in> set (drawLayer cw ch layer)"
    using assms by (simp_all add: drawLayer_def drawText_def Let_def t)
  have g: "set (drawLayer (canvasWidth cfg paperSize) (canvasHeight cfg paperSize) layer)
            \<subseteq> set (fst (generateTiledPDF env cfg ls paperSize))"
    if "0 < printW cfg paperSize \<and> 0 < printH cfg paperSize \<and> ctxAvailable env
        \<and> layer \<in> set ls"
    using that by (auto simp: generateTiledPDF_def Let_def)
  show ?thesis
    using f m g join_split_lines[of "content layer"] split_lines_no_feed[of _ "content layer"]
    by (simp add: Let_def fontSizeMultiplier_def)
qed

text \<open>
  On a surface 1000 pixels high, with multiplier 1, the font size is 50 and the second line
  is 60 pixels below the first.
\<close>

theorem text_layer_rendering_witness:
  "layer_type textLayer = TextLayer
   \<and> CtxFont ''bold'' 50 ''Inter'' \<in> set (drawLayer 2000 1000 textLayer)
   \<and> filter isFillText (drawLayer 2000 1000 textLayer)
       = [CtxFillText ''Hello'' 500 250, CtxFillText ''World'' 500 310]
   \<and> split_lines (content textLayer) = [''Hello'', ''World'']
   \<and> CHR 0x0A \<notin> set ''Hello'' \<and> CHR 0x0A \<notin> set ''World''
   \<and> 0 < printW initialConfig letter \<and> 0 < printH initialConfig letter
   \<and> ctxAvailable fullEnv \<and> textLayer \<in> set (layers twoLayerState)
   \<and> CtxFont ''bold'' 180 ''Inter''
       \<in> set (fst (generateTiledPDF fullEnv initialConfig (layers twoLayerState) letter))"
proof -
  have t: "layer_type textLayer = TextLayer" by (simp add: textLayer_eq)
  have s: "styleString fontWeight ''normal'' textLayer = ''bold''"
    "styleString fontFamily ''sans-serif'' textLayer = ''Inter''"
    "fontSizeMultiplier textLayer = 1"
    "layer_x textLayer = 0.25" "layer_y textLayer = 0.25"
    by (simp_all add: textLayer_eq styleString_def fontSizeMultiplier_def)
  have e: "0 < printW initialConfig letter \<and> 0 < printH initialConfig letter
       \<and> ctxAvailable fullEnv \<and> textLayer \<in> set (layers twoLayerState)"
    by (simp add: initial_printable fullEnv_def twoLayerState_layers)
  have a: "CtxFont ''bold'' 50 ''Inter'' \<in> set (drawLayer 2000 1000 textLayer)
       \<and> filter isFillText (drawLayer 2000 1000 textLayer)
         = [CtxFillText ''Hello'' 500 250, CtxFillText ''World'' 500 310]
       \<and> CHR 0x0A \<notin> set ''Hello'' \<and> CHR 0x0A \<notin> set ''World''"
    using text_layer_rendering[OF t, of 1000 2000] t
    by (simp add: Let_def s textLayer_lines enumerate_eq_zip)
  have "CtxFont ''bold'' (0.05 * of_int (canvasHeight initialConfig letter) * 1) ''Inter''
          \<in> set (drawLayer (canvasWidth initialConfig letter) (canvasHeight initialConfig letter)
                  textLayer)
        \<and> set (drawLayer (canvasWidth initialConfig letter) (canvasHeight initialConfig letter)
                  textLayer)
            \<subseteq> set (fst (generateTiledPDF fullEnv initialConfig (layers twoLayerState) letter))"
    using text_layer_rendering[OF t, of "canvasHeight initialConfig letter"
        "canvasWidth initialConfig letter" initialConfig letter fullEnv "layers twoLayerState"] e
    by (simp add: Let_def s)
  then have "CtxFont ''bold'' 180 ''Inter''
       \<in> set (fst (generateTiledPDF fullEnv initialConfig (layers twoLayerState) letter))"
    by (auto simp: initial_canvas)
  then show ?thesis using t e a textLayer_lines by simp
qed

text \<open>
  C8, as stated (the multiplier is replaced by 1 only when absent), fails for a multiplier
  of 0: the formula gives font size 0 on a surface 1000 pixels high, the compositor
  draws at 50.
\<close>

theorem text_font_size_counterexample:
  "layer_type zeroSizeLayer = TextLayer
   \<and> specFontSize 1000 zeroSizeLayer = 0
   \<and> CtxFont ''bold'' 50 ''Inter'' \<in> set (drawLayer 2000 1000 zeroSizeLayer)
   \<and> CtxFont ''bold'' (specFontSize 1000 zeroSizeLayer) ''Inter''
       \<notin> set (drawLayer 2000 1000 zeroSizeLayer)"
  by (simp add: zeroSizeLayer_def textLayer_eq specFontSize_def drawLayer_def drawText_def
      textFontSize_def fontSizeMultiplier_def styleString_def Let_def enumerate_eq_zip)

section \<open>Pages of an export\<close>

lemma plain_iff: "plain es = (\<forall>e \<in> set es. \<not> isAddPage e \<and> \<not> isDocSave e)"
  by (simp add: plain_def list_all_iff)












lemma plain_concat: "(\<And>x. x \<in> set xss \<Longrightarrow> plain x) \<Longrightarrow> plain (concat xss)"
  by (auto simp: plain_iff)














section \<open>Cut lines and scissor marks\<close>

lemma strokes_tileOps: "strokes d (tileOps env cfg paperSize r c @ es) = strokes d es"
  by (simp add: tileOps_def Let_def)

lemma strokes_pageNumberOps: "strokes d (pageNumberOps cfg paperSize r c) = []"
  by (simp add: pageNumberOps_def)

lemma initial_tile_pixels:
  "fl64 (srcX_f64 initialConfig letter 0 * scale initialConfig) = 0"
  "fl64 (srcY_f64 initialConfig letter 0 * scale initialConfig) = 0"
  "fl64 (srcW_f64 initialConfig letter 0 * scale initialConfig) = 900"
  "fl64 (srcH_f64 initialConfig letter 0 * scale initialConfig) = 1200"
  unfolding initial_tile_0_0 by code_simp+

text \<open>
  C9, as amended. On every page whose tile fills the printable area, with cut lines
  enabled and a style other than none, the tiler strokes five shapes and no others: the
  outline of the printable area, at the margin inset, in the requested style (dashes of
  0.1 in inch mode and of 2 in millimetre mode, or solid), and four solid line segments.
  These form two corner marks, at the top-left and at the bottom-right corner of the
  outline: at each a horizontal and a vertical segment through the corner, reaching the
  mark offset outside it and the mark length along the edge (length 5 and offset 2 in
  millimetre mode, 0.2 and 0.08 in inch mode).
\<close>

theorem cut_lines_and_marks:
  assumes "showCutLines cfg" and "cutLineStyle cfg \<noteq> CutNone"
    and "srcW_f64 cfg paperSize c = printW_f64 cfg paperSize"
    and "srcH_f64 cfg paperSize r = printH_f64 cfg paperSize"
  shows "(let m = margin cfg; w = printW_f64 cfg paperSize; h = printH_f64 cfg paperSize;
              len = markLen cfg; off = markOffset cfg
          in strokes d (pageOps env cfg paperSize r c) =
               [(Rect m m w h,
                 if cutLineStyle cfg = CutDashed
                 then (if isInch cfg then [0.1, 0.1] else [2, 2]) else []),
                (Line (m - off) m (m + len) m, []),
                (Line m (m - off) m (m + len), []),
                (Line (m + w - len) (m + h) (m + w + off) (m + h), []),
                (Line (m + w) (m + h - len) (m + w) (m + h + off), [])]
            \<and> cornerMarked (pageOps env cfg paperSize r c) (m, m)
            \<and> cornerMarked (pageOps env cfg paperSize r c) (m + w, m + h))
       \<and> markLen cfg = (if isInch cfg then 0.2 else 5)
       \<and> markOffset cfg = (if isInch cfg then 0.08 else 2)"
proof -
  let ?w = "printW_f64 cfg paperSize" and ?h = "printH_f64 cfg paperSize"
  have s: "strokes d (pageOps env cfg paperSize r c) =
               [(Rect (margin cfg) (margin cfg) ?w ?h,
                 if cutLineStyle cfg = CutDashed
                 then (if isInch cfg then [0.1, 0.1] else [2, 2]) else [])]
               @ map (\<lambda>e. (e, [])) (scissorMarks cfg (margin cfg) (margin cfg) ?w ?h)"
    using assms
    by (simp add: pageOps_def strokes_tileOps cutLineOps_def Let_def scissorMarks_def
        strokes_pageNumberOps pageNumberOps_def)
  have l: "0 < markLen cfg" "0 < markOffset cfg" by (simp_all add: markLen_def markOffset_def)
  have m: "Line (margin cfg - markOffset cfg) (margin cfg) (margin cfg + markLen cfg) (margin cfg)
             \<in> set (pageOps env cfg paperSize r c)"
    "Line (margin cfg + ?w) (margin cfg + ?h - markLen cfg)
          (margin cfg + ?w) (margin cfg + ?h + markOffset cfg)
             \<in> set (pageOps env cfg paperSize r c)"
    using assms by (simp_all add: pageOps_def cutLineOps_def Let_def scissorMarks_def)
  have tl: "cornerMarked (pageOps env cfg paperSize r c) (margin cfg, margin cfg)"
    unfolding cornerMarked_def list_ex_iff
    using m(1) l by (intro bexI[OF _ m(1)]) (simp add: onSegment_def)
  have br: "cornerMarked (pageOps env cfg paperSize r c) (margin cfg + ?w, margin cfg + ?h)"
    unfolding cornerMarked_def list_ex_iff
    using l by (intro bexI[OF _ m(2)]) (simp add: onSegment_def)
  show ?thesis
    using s tl br by (simp add: Let_def scissorMarks_def markLen_def markOffset_def)
qed

text \<open>
  The first page of the initial configuration (inches, dashed): the outline of the 7.5 by
  10 printable area and the four segments of the two marks.
\<close>

theorem cut_lines_and_marks_witness:
  "showCutLines initialConfig \<and> cutLineStyle initialConfig \<noteq> CutNone
   \<and> srcW_f64 initialConfig letter 0 = printW_f64 initialConfig letter
   \<and> srcH_f64 initialConfig letter 0 = printH_f64 initialConfig letter
   \<and> strokes [] (pageOps fullEnv initialConfig letter 0 0) =
       [(Rect 0.5 0.5 7.5 10, [0.1, 0.1]),
        (Line 0.42 0.5 0.7 0.5, []),
        (Line 0.5 0.42 0.5 0.7, []),
        (Line 7.8 10.5 8.08 10.5, []),
        (Line 8 10.3 8 10.58, [])]
   \<and> cornerMarked (pageOps fullEnv initialConfig letter 0 0) (0.5, 0.5)
   \<and> cornerMarked (pageOps fullEnv initialConfig letter 0 0) (8, 10.5)"
proof -
  have h: "showCutLines initialConfig" "cutLineStyle initialConfig \<noteq> CutNone"
    "srcW_f64 initialConfig letter 0 = printW_f64 initialConfig letter"
    "srcH_f64 initialConfig letter 0 = printH_f64 initialConfig letter"
    by (simp_all add: initialConfig_fields initial_tile_0_0 initial_print)
  show ?thesis
    using cut_lines_and_marks[OF h, where d = "[]" and env = fullEnv] h
    by (simp add: Let_def initial_print initial_marks initialConfig_fields)
qed

text \<open>
  C9, as stated (a mark at each of the four corners), fails: on the first page of the
  initial configuration, whose tile fills the printable area, no line passes the top-right
  corner (8, 0.5) or the bottom-left corner (0.5, 10.5) of the outline.
\<close>

theorem scissor_marks_counterexample:
  "showCutLines initialConfig \<and> cutLineStyle initialConfig \<noteq> CutNone
   \<and> srcW_f64 initialConfig letter 0 = printW_f64 initialConfig letter
   \<and> srcH_f64 initialConfig letter 0 = printH_f64 initialConfig letter
   \<and> rectCorners (margin initialConfig) (margin initialConfig)
         (printW_f64 initialConfig letter) (printH_f64 initialConfig letter)
       = [(0.5, 0.5), (8, 0.5), (0.5, 10.5), (8, 10.5)]
   \<and> \<not> cornerMarked (pageOps fullEnv initialConfig letter 0 0) (8, 0.5)
   \<and> \<not> cornerMarked (pageOps fullEnv initialConfig letter 0 0) (0.5, 10.5)
   \<and> \<not> list_all (cornerMarked (pageOps fullEnv initialConfig letter 0 0))
         (rectCorners (margin initialConfig) (margin initialConfig)
            (printW_f64 initialConfig letter) (printH_f64 initialConfig letter))"
proof -
  have p: "pageOps fullEnv initialConfig letter 0 0 =
     [AddPage 8.5 11 PORTRAIT,
      TileCanvas 900 1200, TileDrawImage 0 0 900 1200 0 0 900 1200,
      TileToDataURL ''image/jpeg'' 0.95, AddImage ''JPEG'' 0.5 0.5 7.5 10,
      SetLineWidth 0.01, SetDrawColor 150 150 150, SetLineDashPattern [0.1, 0.1] 0,
      Rect 0.5 0.5 7.5 10, SetLineDashPattern [] 0, SetDrawColor 0 0 0,
      Line 0.42 0.5 0.7 0.5, Line 0.5 0.42 0.5 0.7,
      Line 7.8 10.5 8.08 10.5, Line 8 10.3 8 10.58,
      SetFontSize 10, SetTextColor 150, DocText (pageLabel 0 0) 0.2 10.8]"
    unfolding pageOps_def tileOps_def cutLineOps_def Let_def initial_tile_pixels
    by (simp add: pageNumberOps_def scissorMarks_def initial_tile_0_0
        initial_marks initialConfig_fields
        pageOrientation_def isPortrait_def pWidth_def pHeight_def paperWidth_def
        paperHeight_def letter_sizes fullEnv_def)
  show ?thesis
    unfolding p
    by (simp add: cornerMarked_def onSegment_def rectCorners_def initial_tile_0_0 initial_print
        initialConfig_fields)
qed

end
